theory Spec2Isabelle
  imports Complex_Main
begin

section \<open>JavaScript values\<close>

text \<open>
  The dashboard script \<^verbatim>\<open>static/history.js\<close> works on JSON decoded by the browser. A
  JavaScript number is modelled by the real it denotes (JSON cannot carry \<^verbatim>\<open>NaN\<close>); the
  script never does arithmetic on the numbers this development reasons about, it only tests
  them for zero, compares them with a constant and prints them. A string is a list of
  bytes, the UTF-8 encoding of the JavaScript string: the characters the script tests for
  and replaces are ASCII, and no byte of a multi-byte UTF-8 sequence is an ASCII byte.
  A field that may be missing (\<^verbatim>\<open>undefined\<close>) or \<^verbatim>\<open>null\<close> is an \<open>option\<close>.
\<close>

type_synonym number = real

datatype json =
    JNull
  | JBool bool
  | JNum number
  | JStr string
  | JArr "json list"
  | JObj "(string \<times> json) list"

datatype js_error = TypeError string | SyntaxError string

text \<open>
  What the host gives and this development leaves open: the printing of numbers and dates,
  \<^verbatim>\<open>JSON.stringify\<close>, and the text of the markup of the three dashboard tables, which
  is built from floating-point formatting (\<^verbatim>\<open>toFixed\<close>) of every cell. Whether building
  that text throws is not left open: the renderers below say on which values it does.
\<close>

record runtime =
  number_string :: "number \<Rightarrow> string"
    \<comment> \<open>the string a number becomes under \<^verbatim>\<open>+\<close> with a string, or as \<^verbatim>\<open>textContent\<close>\<close>
  object_string :: "json \<Rightarrow> string"
    \<comment> \<open>\<^verbatim>\<open>String(v)\<close> for an array or an object\<close>
  toFixed :: "number \<Rightarrow> nat \<Rightarrow> string"
  toLocaleString :: "number \<Rightarrow> string"
    \<comment> \<open>\<^verbatim>\<open>new Date(ms).toLocaleString('zh-CN', {month, day, hour, minute: '2-digit'})\<close>\<close>
  JSON_stringify :: "json \<Rightarrow> string"
    \<comment> \<open>\<^verbatim>\<open>JSON.stringify(v, null, 2)\<close>\<close>
  stats_row1 :: "json \<Rightarrow> number \<Rightarrow> string"
    \<comment> \<open>the text \<^verbatim>\<open>row1\<close> of lines 62-65, from the stats and \<^verbatim>\<open>initial\<close>\<close>
  stats_row2 :: "json \<Rightarrow> number \<Rightarrow> string"
    \<comment> \<open>the text \<^verbatim>\<open>row2\<close> of lines 68-71\<close>
  positions_table :: "json list \<Rightarrow> string"
    \<comment> \<open>the text \<^verbatim>\<open>html\<close> of lines 109-119, for a non-empty list of positions\<close>
  trades_table :: "json list \<Rightarrow> number \<Rightarrow> number \<Rightarrow> number \<Rightarrow> string"
    \<comment> \<open>the text \<^verbatim>\<open>html\<close> of lines 135-174, from \<^verbatim>\<open>trades\<close>, \<^verbatim>\<open>total\<close>, \<^verbatim>\<open>page\<close>, \<^verbatim>\<open>pages\<close>\<close>

text \<open>Truthiness, and \<^verbatim>\<open>a || b\<close> at the types the script uses it at.\<close>

fun truthy :: "json option \<Rightarrow> bool" where
  "truthy None = False"
| "truthy (Some JNull) = False"
| "truthy (Some (JBool b)) = b"
| "truthy (Some (JNum n)) = (n \<noteq> 0)"
| "truthy (Some (JStr s)) = (s \<noteq> [])"
| "truthy (Some (JArr xs)) = True"
| "truthy (Some (JObj kvs)) = True"

definition js_or :: "json option \<Rightarrow> json option \<Rightarrow> json option" where
  "js_or a b = (if truthy a then a else b)"

fun js_String :: "runtime \<Rightarrow> json option \<Rightarrow> string" where
  "js_String rt None = ''undefined''"
| "js_String rt (Some JNull) = ''null''"
| "js_String rt (Some (JBool b)) = (if b then ''true'' else ''false'')"
| "js_String rt (Some (JNum n)) = number_string rt n"
| "js_String rt (Some (JStr s)) = s"
| "js_String rt (Some (JArr xs)) = object_string rt (JArr xs)"
| "js_String rt (Some (JObj kvs)) = object_string rt (JObj kvs)"

definition property :: "json \<Rightarrow> string \<Rightarrow> json option" where
  \<comment> \<open>\<^verbatim>\<open>v.k\<close> for a value \<open>v\<close> that is not \<^verbatim>\<open>null\<close> and a key \<open>k\<close> the script reads: only an
      object has such a property\<close>
  "property v k = (case v of JObj kvs \<Rightarrow> map_of kvs k | _ \<Rightarrow> None)"

definition lacks_toFixed :: "json option \<Rightarrow> bool" where
  \<comment> \<open>\<^verbatim>\<open>(v || d).toFixed(...)\<close> throws, for a number \<open>d\<close>: a truthy \<open>v\<close> that is not a number
      has no method \<^verbatim>\<open>toFixed\<close>\<close>
  "lacks_toFixed v = (truthy v \<and> (case v of Some (JNum n) \<Rightarrow> False | _ \<Rightarrow> True))"

definition lacks_toLowerCase :: "json option \<Rightarrow> bool" where
  \<comment> \<open>\<^verbatim>\<open>v.toLowerCase()\<close> throws for a truthy \<open>v\<close> that is not a string\<close>
  "lacks_toLowerCase v = (truthy v \<and> (case v of Some (JStr s) \<Rightarrow> False | _ \<Rightarrow> True))"

fun first_error :: "('a \<Rightarrow> js_error option) \<Rightarrow> 'a list \<Rightarrow> js_error option" where
  \<comment> \<open>what a loop over the list throws, if one of its rounds does\<close>
  "first_error f [] = None"
| "first_error f (x # xs) = (case f x of Some e \<Rightarrow> Some e | None \<Rightarrow> first_error f xs)"

definition num_or :: "number option \<Rightarrow> number \<Rightarrow> number" where
  \<comment> \<open>\<^verbatim>\<open>x || d\<close> for a number \<open>x\<close> that may be missing: \<open>0\<close> is falsy\<close>
  "num_or x d = (case x of None \<Rightarrow> d | Some n \<Rightarrow> if n = 0 then d else n)"

definition str_or :: "string option \<Rightarrow> string \<Rightarrow> string" where
  \<comment> \<open>\<^verbatim>\<open>x || d\<close> for a string \<open>x\<close> that may be missing: the empty string is falsy\<close>
  "str_or x d = (case x of None \<Rightarrow> d | Some s \<Rightarrow> if s = [] then d else s)"

definition truthy_str :: "string option \<Rightarrow> bool" where
  "truthy_str x = (case x of None \<Rightarrow> False | Some s \<Rightarrow> s \<noteq> [])"

fun starts_with :: "string \<Rightarrow> string \<Rightarrow> bool" where
  "starts_with [] s = True"
| "starts_with (p # ps) [] = False"
| "starts_with (p # ps) (c # cs) = (p = c \<and> starts_with ps cs)"

fun has_substring :: "string \<Rightarrow> string \<Rightarrow> bool" where
  \<comment> \<open>\<^verbatim>\<open>s.indexOf(p) >= 0\<close>\<close>
  "has_substring p [] = starts_with p []"
| "has_substring p (c # cs) = (starts_with p (c # cs) \<or> has_substring p cs)"

fun join :: "string \<Rightarrow> string list \<Rightarrow> string" where
  \<comment> \<open>\<^verbatim>\<open>xs.join(sep)\<close> on an array of strings\<close>
  "join sep [] = []"
| "join sep [x] = x"
| "join sep (x # y # ys) = x @ sep @ join sep (y # ys)"

subsection \<open>\<^verbatim>\<open>Array.prototype.sort\<close>\<close>

text \<open>
  ECMAScript (2019 and later) requires \<^verbatim>\<open>sort\<close> to be stable, and engines sort short
  arrays by insertion: each element in turn is placed into the sorted prefix, behind every
  element it does not compare below. The comparator's sign alone decides.
\<close>

fun sort_insert :: "('a \<Rightarrow> 'a \<Rightarrow> int) \<Rightarrow> 'a \<Rightarrow> 'a list \<Rightarrow> 'a list" where
  "sort_insert cmp x [] = [x]"
| "sort_insert cmp x (y # ys) =
     (if cmp x y < 0 then x # y # ys else y # sort_insert cmp x ys)"

definition array_sort :: "('a \<Rightarrow> 'a \<Rightarrow> int) \<Rightarrow> 'a list \<Rightarrow> 'a list" where
  "array_sort cmp xs = foldl (\<lambda>placed x. sort_insert cmp x placed) [] xs"

section \<open>Data model\<close>

record signal =
  symbol :: "string option"
  action :: "string option"
  entry :: "json option"
  position_size :: "json option"
  quantity :: "json option"
  order_value :: "json option"
  amount :: "json option"
  stop_loss :: "json option"
  take_profit :: "json option"
  ai_decision :: "string option"
  ai_reason :: "string option"
  reason :: "string option"
  invalidations :: "string list option"

record decision =
  round_no :: number  \<comment> \<open>the field \<^verbatim>\<open>round\<close>\<close>
  timestamp :: "number option"
  http_status :: "number option"
  symbols_count :: "number option"
  signal_count :: "number option"
  wait_count :: "number option"
  signals :: "signal list option"
  request :: "json option"
  response_raw :: "json option"

record decisions_response =
  decisions :: "decision list option"
  decisions_total :: "number option"  \<comment> \<open>the field \<^verbatim>\<open>total\<close>\<close>

datatype point =
    Tuple number number  \<comment> \<open>\<^verbatim>\<open>[ts, equity]\<close>\<close>
  | Object number number  \<comment> \<open>\<^verbatim>\<open>{ts: ..., equity: ...}\<close>\<close>

record profit_curve =
  initial_equity :: "number option"
  data :: "point list option"

record positions_response =
  positions :: "json list option"

record trade_page =
  trades :: "json list option"
  trades_total :: "number option"  \<comment> \<open>the field \<^verbatim>\<open>total\<close>\<close>
  page :: "number option"
  pages :: "number option"


section \<open>Page state\<close>

text \<open>
  The script's variables (lines 2, 3 and 178), the objects decoded from the decisions
  response, the page's elements by id, and what leaves the page: the chart handed to the
  charting library, the console, the requests fetched, and the promise rejections nothing
  handles, which the browser reports at top level.

  The decision objects live in a store, \<open>heap\<close>, where the address of an object is its
  position, and \<open>currentDecisions\<close> holds addresses, as the array of the script holds
  references: \<^verbatim>\<open>renderDecisionDetail\<close> is handed one of these references and sorts the
  array behind it.

  The page itself belongs to the server's template. An element is looked up by id; one
  that the page lacks is \<open>None\<close>, \<^verbatim>\<open>getElementById\<close> returning \<^verbatim>\<open>null\<close>, and writing a
  property of it throws. No element encloses another one that the script looks up.
\<close>

datatype content = InnerHTML string | TextContent string

record element =
  inner :: content
  value_attr :: string  \<comment> \<open>the property \<^verbatim>\<open>value\<close> of a form control\<close>

datatype log_entry =
    Log string  \<comment> \<open>\<^verbatim>\<open>console.log\<close>, by its first argument\<close>
  | LogError string js_error  \<comment> \<open>\<^verbatim>\<open>console.error(label, err)\<close>\<close>

record chart_series =
  xData :: "string list"
  yData :: "number list"
  baseLine :: "number list"

record state =
  currentDecisions :: "nat list"
  selectedDecisionIndex :: int
  currentTradesPage :: number
  heap :: "decision list"
  elements :: "string \<Rightarrow> element option"
  charts :: nat  \<comment> \<open>calls of \<^verbatim>\<open>echarts.init\<close>\<close>
  chart_option :: "chart_series option"  \<comment> \<open>the series of the last \<^verbatim>\<open>setOption\<close>\<close>
  resize_listeners :: nat
  console :: "log_entry list"
  fetched :: "string list"
  unhandled_rejections :: "js_error list"

text \<open>A statement either completes or throws; both leave a state behind.\<close>

datatype outcome = Done state | Thrown js_error state

fun state_of :: "outcome \<Rightarrow> state" where
  "state_of (Done s) = s"
| "state_of (Thrown e s) = s"

fun and_then :: "outcome \<Rightarrow> (state \<Rightarrow> outcome) \<Rightarrow> outcome" where
  "and_then (Done s) f = f s"
| "and_then (Thrown e s) f = Thrown e s"

definition set_innerHTML :: "string \<Rightarrow> string \<Rightarrow> state \<Rightarrow> outcome" where
  \<comment> \<open>\<^verbatim>\<open>document.getElementById(id).innerHTML = html\<close>\<close>
  "set_innerHTML i html s =
     (case elements s i of
        None \<Rightarrow> Thrown (TypeError ''Cannot set properties of null'') s
      | Some el \<Rightarrow> Done (s\<lparr>elements := (elements s)(i \<mapsto> el\<lparr>inner := InnerHTML html\<rparr>)\<rparr>))"

definition set_textContent :: "string \<Rightarrow> string \<Rightarrow> state \<Rightarrow> outcome" where
  "set_textContent i txt s =
     (case elements s i of
        None \<Rightarrow> Thrown (TypeError ''Cannot set properties of null'') s
      | Some el \<Rightarrow> Done (s\<lparr>elements := (elements s)(i \<mapsto> el\<lparr>inner := TextContent txt\<rparr>)\<rparr>))"

definition log_error :: "string \<Rightarrow> js_error \<Rightarrow> state \<Rightarrow> state" where
  "log_error label e s = s\<lparr>console := console s @ [LogError label e]\<rparr>"

definition array_get :: "'a list \<Rightarrow> int \<Rightarrow> 'a option" where
  \<comment> \<open>\<^verbatim>\<open>xs[i]\<close>: \<^verbatim>\<open>undefined\<close> outside the array\<close>
  "array_get xs i = (if 0 \<le> i \<and> i < int (length xs) then Some (xs ! nat i) else None)"

subsection \<open>Requests and promises\<close>

text \<open>
  \<^verbatim>\<open>fetch(url)\<close> rejects when the network fails and otherwise fulfils with the response,
  whatever its status; \<^verbatim>\<open>r.json()\<close> rejects when the body is not JSON (\<open>None\<close>). A request
  that has not been answered is \<open>None\<close>; an answer comes with the time it arrived.

  A promise is rejected at a moment: the time the answer arrived and the steps taken after
  it. A network failure rejects the promise as it arrives; a body that is not JSON rejects
  it later, once \<^verbatim>\<open>r.json()\<close> has read the body. \<^verbatim>\<open>Promise.all\<close> reports the rejection
  of the earliest moment, and of two at one moment that of the request listed first.
\<close>

datatype 'a fetch_result = NetworkFailure | Response nat "'a option"

type_synonym 'a reply = "(nat \<times> 'a fetch_result) option"

type_synonym moment = "nat \<times> nat"

datatype 'a promise = Pending | Rejected moment js_error | Fulfilled 'a

fun fetch_json :: "'a reply \<Rightarrow> 'a promise" where
  \<comment> \<open>\<^verbatim>\<open>fetch(url).then(function(r) { return r.json(); })\<close>\<close>
  "fetch_json None = Pending"
| "fetch_json (Some (t, NetworkFailure)) = Rejected (t, 0) (TypeError ''Failed to fetch'')"
| "fetch_json (Some (t, Response status None)) = Rejected (t, 1) (SyntaxError ''Unexpected token'')"
| "fetch_json (Some (t, Response status (Some v))) = Fulfilled v"

fun rejection :: "'a promise \<Rightarrow> (moment \<times> js_error) option" where
  "rejection (Rejected m e) = Some (m, e)"
| "rejection Pending = None"
| "rejection (Fulfilled v) = None"



fun before :: "moment \<Rightarrow> moment \<Rightarrow> bool" where
  "before (t', n') (t, n) = (t' < t \<or> (t' = t \<and> n' < n))"

fun earliest :: "(moment \<times> js_error) option list \<Rightarrow> (moment \<times> js_error) option" where
  "earliest [] = None"
| "earliest (None # rs) = earliest rs"
| "earliest (Some (m, e) # rs) =
     (case earliest rs of
        None \<Rightarrow> Some (m, e)
      | Some (m', e') \<Rightarrow> if before m' m then Some (m', e') else Some (m, e))"

definition promise_all4 ::
  "'a promise \<Rightarrow> 'b promise \<Rightarrow> 'c promise \<Rightarrow> 'd promise \<Rightarrow> ('a \<times> 'b \<times> 'c \<times> 'd) promise" where
  \<comment> \<open>\<^verbatim>\<open>Promise.all\<close> of four: rejected with the first rejection, fulfilled once all are\<close>
  "promise_all4 p1 p2 p3 p4 =
     (case earliest [rejection p1, rejection p2, rejection p3, rejection p4] of
        Some (m, e) \<Rightarrow> Rejected m e
      | None \<Rightarrow>
          (case (p1, p2, p3, p4) of
             (Fulfilled a, Fulfilled b, Fulfilled c, Fulfilled d) \<Rightarrow> Fulfilled (a, b, c, d)
           | _ \<Rightarrow> Pending))"

section \<open>Text of the page\<close>

text \<open>The script's literals that are not ASCII, as their UTF-8 bytes.\<close>

definition zh_no_decisions :: string where \<comment> \<open>line 206: 'no decisions yet'\<close>
  "zh_no_decisions = [CHR 0xE6, CHR 0x9A, CHR 0x82, CHR 0xE6, CHR 0x97, CHR 0xA0, CHR 0xE5,
     CHR 0x86, CHR 0xB3, CHR 0xE7, CHR 0xAD, CHR 0x96]"

definition zh_round_pre :: string where \<comment> \<open>lines 214, 292: ordinal prefix before the round number\<close>
  "zh_round_pre = [CHR 0xE7, CHR 0xAC, CHR 0xAC] @ '' ''"

definition zh_round_post :: string where \<comment> \<open>lines 198, 214, 292: 'round(s) of decisions'\<close>
  "zh_round_post = '' '' @ [CHR 0xE8, CHR 0xBD, CHR 0xAE, CHR 0xE5, CHR 0x86, CHR 0xB3,
     CHR 0xE7, CHR 0xAD, CHR 0x96]"

definition zh_dot :: string where \<comment> \<open>lines 215, 292: U+00B7 MIDDLE DOT\<close>
  "zh_dot = [CHR 0xC2, CHR 0xB7]"

definition zh_select_left :: string where \<comment> \<open>line 231: 'select a decision on the left'\<close>
  "zh_select_left = [CHR 0xE9, CHR 0x80, CHR 0x89, CHR 0xE6, CHR 0x8B, CHR 0xA9, CHR 0xE5,
     CHR 0xB7, CHR 0xA6, CHR 0xE4, CHR 0xBE, CHR 0xA7, CHR 0xE5, CHR 0x86, CHR 0xB3,
     CHR 0xE7, CHR 0xAD, CHR 0x96]"

definition zh_quant :: string where \<comment> \<open>line 265: 'quant:'\<close>
  "zh_quant = [CHR 0xE9, CHR 0x87, CHR 0x8F, CHR 0xE5, CHR 0x8C, CHR 0x96] @ '':''"

definition zh_ai_review :: string where \<comment> \<open>line 270: 'AI review:'\<close>
  "zh_ai_review = ''AI'' @ [CHR 0xE5, CHR 0xAE, CHR 0xA1, CHR 0xE6, CHR 0xA0, CHR 0xB8]
     @ '':''"

definition zh_invalidation :: string where \<comment> \<open>line 274: 'invalidation conditions: '\<close>
  "zh_invalidation = [CHR 0xE5, CHR 0xA4, CHR 0xB1, CHR 0xE6, CHR 0x95, CHR 0x88, CHR 0xE6,
     CHR 0x9D, CHR 0xA1, CHR 0xE4, CHR 0xBB, CHR 0xB6] @ '': ''"

definition zh_no_reason :: string where \<comment> \<open>line 278: 'no reason data'\<close>
  "zh_no_reason = [CHR 0xE6, CHR 0x97, CHR 0xA0] @ '' reason '' @ [CHR 0xE6, CHR 0x95,
     CHR 0xB0, CHR 0xE6, CHR 0x8D, CHR 0xAE]"

definition zh_symbols_post :: string where \<comment> \<open>line 292: 'symbols)'\<close>
  "zh_symbols_post = '' '' @ [CHR 0xE4, CHR 0xB8, CHR 0xAA, CHR 0xE5, CHR 0xB8, CHR 0x81,
     CHR 0xE7, CHR 0xA7, CHR 0x8D] @ '')''"

definition zh_no_signals :: string where \<comment> \<open>line 294: 'this inference has no signals / decision data'\<close>
  "zh_no_signals = [CHR 0xE6, CHR 0x9C, CHR 0xAC, CHR 0xE6, CHR 0xAC, CHR 0xA1, CHR 0xE6,
     CHR 0x8E, CHR 0xA8, CHR 0xE7, CHR 0x90, CHR 0x86, CHR 0xE6, CHR 0x97, CHR 0xA0]
     @ '' signals / decision '' @ [CHR 0xE6, CHR 0x95, CHR 0xB0, CHR 0xE6, CHR 0x8D,
     CHR 0xAE]"

definition zh_arrow :: string where \<comment> \<open>lines 296-302: U+25B6 BLACK RIGHT-POINTING TRIANGLE\<close>
  "zh_arrow = [CHR 0xE2, CHR 0x96, CHR 0xB6]"

definition zh_view_reasons :: string where \<comment> \<open>line 296: 'view the reason of each symbol'\<close>
  "zh_view_reasons = '' '' @ [CHR 0xE6, CHR 0x9F, CHR 0xA5, CHR 0xE7, CHR 0x9C, CHR 0x8B,
     CHR 0xE6, CHR 0xAF, CHR 0x8F, CHR 0xE4, CHR 0xB8, CHR 0xAA, CHR 0xE5, CHR 0xB8,
     CHR 0x81, CHR 0xE7, CHR 0xA7, CHR 0x8D, CHR 0xE7, CHR 0x9A, CHR 0x84] @ '' reason''"

definition zh_view_content :: string where \<comment> \<open>line 298: 'view the raw decision output'\<close>
  "zh_view_content = '' '' @ [CHR 0xE6, CHR 0x9F, CHR 0xA5, CHR 0xE7, CHR 0x9C, CHR 0x8B,
     CHR 0xE5, CHR 0x8E, CHR 0x9F, CHR 0xE5, CHR 0xA7, CHR 0x8B] @ '' decision ''
     @ [CHR 0xE8, CHR 0xBE, CHR 0x93, CHR 0xE5, CHR 0x87, CHR 0xBA] @ ''(Response.content)''"

definition zh_request :: string where \<comment> \<open>line 300: 'fed content (Request)'\<close>
  "zh_request = '' '' @ [CHR 0xE6, CHR 0x8A, CHR 0x95, CHR 0xE5, CHR 0x96, CHR 0x82,
     CHR 0xE5, CHR 0x86, CHR 0x85, CHR 0xE5, CHR 0xAE, CHR 0xB9] @ ''(Request)''"

definition zh_response :: string where \<comment> \<open>line 302: 'raw output (Response JSON)'\<close>
  "zh_response = '' '' @ [CHR 0xE5, CHR 0x8E, CHR 0x9F, CHR 0xE5, CHR 0xA7, CHR 0x8B,
     CHR 0xE8, CHR 0xBE, CHR 0x93, CHR 0xE5, CHR 0x87, CHR 0xBA] @ ''(Response JSON)''"

definition zh_no_data :: string where \<comment> \<open>lines 298-302: 'no data'\<close>
  "zh_no_data = [CHR 0xE6, CHR 0x97, CHR 0xA0, CHR 0xE6, CHR 0x95, CHR 0xB0, CHR 0xE6,
     CHR 0x8D, CHR 0xAE]"

definition zh_total_pre :: string where \<comment> \<open>line 198: 'in total'\<close>
  "zh_total_pre = [CHR 0xE5, CHR 0x85, CHR 0xB1] @ '' ''"

definition zh_total_mid :: string where \<comment> \<open>line 198: 'entries, executed'\<close>
  "zh_total_mid = '' '' @ [CHR 0xE6, CHR 0x9D, CHR 0xA1] @ '' '' @ [CHR 0xC2, CHR 0xB7]
     @ '' '' @ [CHR 0xE5, CHR 0xB7, CHR 0xB2, CHR 0xE6, CHR 0x89, CHR 0xA7, CHR 0xE8,
     CHR 0xA1, CHR 0x8C] @ '' ''"

definition zh_chart_empty :: string where \<comment> \<open>line 80: 'no data yet'\<close>
  "zh_chart_empty = [CHR 0xE6, CHR 0x9A, CHR 0x82, CHR 0xE6, CHR 0x97, CHR 0xA0, CHR 0xE6,
     CHR 0x95, CHR 0xB0, CHR 0xE6, CHR 0x8D, CHR 0xAE]"

definition zh_legend_pre :: string where \<comment> \<open>line 90: 'equity (USDT) | baseline'\<close>
  "zh_legend_pre = [CHR 0xE6, CHR 0x9D, CHR 0x83, CHR 0xE7, CHR 0x9B, CHR 0x8A]
     @ ''(USDT) | '' @ [CHR 0xE5, CHR 0x9F, CHR 0xBA, CHR 0xE5, CHR 0x87, CHR 0x86] @ '' ''"

definition zh_no_positions :: string where \<comment> \<open>line 108: 'no positions yet'\<close>
  "zh_no_positions = [CHR 0xE6, CHR 0x9A, CHR 0x82, CHR 0xE6, CHR 0x97, CHR 0xA0, CHR 0xE6,
     CHR 0x8C, CHR 0x81, CHR 0xE4, CHR 0xBB, CHR 0x93]"

definition zh_no_trades :: string where \<comment> \<open>line 131: 'no trade records yet'\<close>
  "zh_no_trades = [CHR 0xE6, CHR 0x9A, CHR 0x82, CHR 0xE6, CHR 0x97, CHR 0xA0, CHR 0xE4,
     CHR 0xBA, CHR 0xA4, CHR 0xE6, CHR 0x98, CHR 0x93, CHR 0xE8, CHR 0xAE, CHR 0xB0,
     CHR 0xE5, CHR 0xBD, CHR 0x95]"


section \<open>Formatting utilities\<close>

definition replace_all :: "char \<Rightarrow> string \<Rightarrow> string \<Rightarrow> string" where
  \<comment> \<open>\<^verbatim>\<open>s.replace(/c/g, r)\<close> for a single character \<open>c\<close>\<close>
  "replace_all c r s = concat (map (\<lambda>x. if x = c then r else [x]) s)"

definition escapeHtml :: "runtime \<Rightarrow> json option \<Rightarrow> string" where
  "escapeHtml rt str =
     (if \<not> truthy str then []
      else replace_all (CHR ''>'') ''&gt;''
             (replace_all (CHR ''<'') ''&lt;''
                (replace_all (CHR ''&'') ''&amp;'' (js_String rt str))))"

section \<open>Decision list and detail\<close>

subsection \<open>The order of the signals (lines 233-238)\<close>

definition is_wait :: "signal \<Rightarrow> bool" where
  "is_wait a = (action a = Some ''wait'' \<or> action a = Some ''hold'')"

definition compare_wait :: "signal \<Rightarrow> signal \<Rightarrow> int" where
  "compare_wait a b =
     (let aIsWait = (if is_wait a then 1 else 0);
          bIsWait = (if is_wait b then 1 else 0)
      in aIsWait - bIsWait)"

definition sort_signals :: "signal list \<Rightarrow> signal list" where
  "sort_signals sigs = array_sort compare_wait sigs"

subsection \<open>Markup of the detail pane (lines 239-302)\<close>

definition signal_row :: "runtime \<Rightarrow> signal \<Rightarrow> string" where
  \<comment> \<open>lines 241-245\<close>
  \<open>signal_row rt s =
     (let action = str_or (action s) ''wait'';
          cls = (if action = ''wait'' \<or> action = ''hold'' then ''wait''
                 else if has_substring ''long'' action then ''buy'' else ''sell'');
          sizeVal = js_or (position_size s) (js_or (quantity s) (js_or (order_value s)
                      (js_or (amount s) (Some (JStr ''-'')))))
      in ''<tr><td><b>'' @ str_or (symbol s) ''-'' @ ''</b></td><td><span class="badge '' @ cls
         @ ''">'' @ action @ ''</span></td><td>''
         @ js_String rt (js_or (entry s) (Some (JStr ''-''))) @ ''</td><td>''
         @ js_String rt sizeVal @ ''</td><td>''
         @ js_String rt (js_or (stop_loss s) (Some (JStr ''-''))) @ ''</td><td>''
         @ js_String rt (js_or (take_profit s) (Some (JStr ''-''))) @ ''</td></tr>'')\<close>

definition reason_block :: "runtime \<Rightarrow> signal \<Rightarrow> string" where
  \<comment> \<open>lines 251-276, what one signal adds to \<^verbatim>\<open>reasonHtml\<close>\<close>
  \<open>reason_block rt sig =
     (let actionCls =
            (if action sig = Some ''wait'' \<or> action sig = Some ''hold'' then ''wait''
             else (case action sig of
                     None \<Rightarrow> ''sell''
                   | Some act \<Rightarrow>
                       if act \<noteq> [] \<and> has_substring ''long'' act then ''buy'' else ''sell''))
      in ''<div style="margin-bottom:12px;padding:10px;background:#0a0c10;border-radius:4px;">''
         @ ''<div style="margin-bottom:6px;"><b style="color:#5ab2ff;">''
         @ str_or (symbol sig) ''-'' @ ''</b> <span class="badge '' @ actionCls
         @ ''" style="margin-left:8px;">'' @ str_or (action sig) ''wait'' @ ''</span>''
         @ (case ai_decision sig of
              None \<Rightarrow> []
            | Some verdict \<Rightarrow>
                if verdict \<noteq> [] \<and> verdict \<noteq> ''-'' then
                  (let aiColor = (if verdict = ''APPROVE'' then ''#00c853''
                                  else if verdict = ''CLOSE'' then ''#ffc107''
                                  else ''#ff5252'')
                   in '' <span style="margin-left:10px;padding:2px 8px;border-radius:3px;font-size:11px;background:''
                      @ aiColor @ ''22;color:'' @ aiColor @ '';">AI: '' @ verdict @ ''</span>'')
                else [])
         @ ''</div>''
         @ (if truthy_str (reason sig) then
              ''<div style="color:#aaa;font-size:12px;line-height:1.6;margin-bottom:6px;"><b>''
              @ zh_quant @ ''</b> '' @ escapeHtml rt (map_option JStr (reason sig)) @ ''</div>''
            else [])
         @ (if truthy_str (ai_reason sig) \<and> ai_reason sig \<noteq> Some ''-'' then
              ''<div style="color:#5ab2ff;font-size:12px;line-height:1.6;"><b>''
              @ zh_ai_review @ ''</b> '' @ escapeHtml rt (map_option JStr (ai_reason sig))
              @ ''</div>''
            else [])
         @ (case invalidations sig of
              None \<Rightarrow> []
            | Some invs \<Rightarrow>
                if length invs > 0 then
                  ''<div style="margin-top:6px;color:#ff5252;font-size:11px;">''
                  @ zh_invalidation @ join '', '' invs @ ''</div>''
                else [])
         @ ''</div>'')\<close>

definition collapsible_open :: "string \<Rightarrow> string" where
  \<comment> \<open>the head the four sections of lines 296-302 share, up to the body\<close>
  \<open>collapsible_open title =
     ''<div class="collapsible-section"><div class="collapsible-header" onclick="toggleCollapsible(this)"><span class="arrow">''
     @ zh_arrow @ ''</span>'' @ title @ ''</div><div class="collapsible-body">''\<close>

definition code_block :: "string \<Rightarrow> string" where
  \<open>code_block escaped =
     ''<pre class="code-block" style="white-space:pre-wrap;word-break:break-all;">''
     @ escaped @ ''</pre></div></div>''\<close>

definition property_content :: "json option \<Rightarrow> json option" where
  \<comment> \<open>\<^verbatim>\<open>v.content\<close> for a truthy \<open>v\<close>: only an object has the property\<close>
  "property_content v = (case v of Some (JObj kvs) \<Rightarrow> map_of kvs ''content'' | _ \<Rightarrow> None)"

definition stringify_object :: "runtime \<Rightarrow> json option \<Rightarrow> json option" where
  \<comment> \<open>\<^verbatim>\<open>if (typeof c === 'object') c = JSON.stringify(c, null, 2)\<close>, for a truthy \<open>c\<close>\<close>
  "stringify_object rt c =
     (case c of
        Some (JObj kvs) \<Rightarrow> Some (JStr (JSON_stringify rt (JObj kvs)))
      | Some (JArr xs) \<Rightarrow> Some (JStr (JSON_stringify rt (JArr xs)))
      | _ \<Rightarrow> c)"

definition decision_detail_html :: "runtime \<Rightarrow> decision \<Rightarrow> signal list \<Rightarrow> string" where
  \<comment> \<open>lines 239-302: the text \<^verbatim>\<open>html\<close>, from the decision and its sorted signals\<close>
  \<open>decision_detail_html rt d sigs =
     (let rows = concat (map (signal_row rt) sigs);
          reasonHtml0 = concat (map (reason_block rt) sigs);
          reasonHtml =
            (if reasonHtml0 = [] then
               ''<div style="color:#666;padding:20px;text-align:center;">'' @ zh_no_reason
               @ ''</div>''
             else reasonHtml0);
          contentRaw =
            (if truthy (response_raw d)
             then js_or (property_content (response_raw d)) (Some (JStr []))
             else Some (JStr []));
          requestContent = stringify_object rt (js_or (request d) (Some (JStr [])));
          responseContent = stringify_object rt (js_or (response_raw d) (Some (JStr [])))
      in ''<div class="detail-header"><div class="detail-title">'' @ zh_round_pre
         @ number_string rt (round_no d) @ zh_round_post
         @ '' <span style="color:#888;font-weight:normal;">(''
         @ number_string rt (num_or (symbols_count d) 0) @ zh_symbols_post
         @ ''</span></div><div class="detail-meta">Signal <span style="color:#ff5252;">''
         @ number_string rt (num_or (signal_count d) 0) @ ''</span> '' @ zh_dot
         @ '' wait <span style="color:#00c853;">''
         @ number_string rt (num_or (wait_count d) 0) @ ''</span> '' @ zh_dot @ '' HTTP ''
         @ number_string rt (num_or (http_status d) 200) @ ''</div></div>''
         @ ''<div class="table-wrap signal-table"><table class="data-table"><thead><tr><th>Symbol</th><th>Action</th><th>Entry</th><th>Size</th><th>SL</th><th>TP</th></tr></thead><tbody>''
         @ (if rows = [] then
              ''<tr><td colspan="6" style="text-align:center;color:#666;">'' @ zh_no_signals
              @ ''</td></tr>''
            else rows)
         @ ''</tbody></table></div>''
         @ collapsible_open zh_view_reasons @ reasonHtml @ ''</div></div>''
         @ collapsible_open zh_view_content
         @ code_block (escapeHtml rt (js_or contentRaw (Some (JStr zh_no_data))))
         @ collapsible_open zh_request
         @ code_block (escapeHtml rt (js_or requestContent (Some (JStr zh_no_data))))
         @ collapsible_open zh_response
         @ code_block (escapeHtml rt (js_or responseContent (Some (JStr zh_no_data)))))\<close>

definition renderDecisionDetail :: "runtime \<Rightarrow> nat option \<Rightarrow> state \<Rightarrow> outcome" where
  \<comment> \<open>the argument is a reference to a decision object, or \<^verbatim>\<open>undefined\<close>\<close>
  \<open>renderDecisionDetail rt ref s =
     (case ref of
        None \<Rightarrow>
          set_innerHTML ''decision-detail''
            (''<div style="color:#666;text-align:center;padding:40px;">'' @ zh_select_left
             @ ''</div>'') s
      | Some a \<Rightarrow>
          (let d = heap s ! a;
               s1 = (case signals d of
                       None \<Rightarrow> s
                     | Some sigs \<Rightarrow>
                         s\<lparr>heap := (heap s)[a := d\<lparr>signals := Some (sort_signals sigs)\<rparr>]\<rparr>);
               sigs = (case signals (heap s1 ! a) of None \<Rightarrow> [] | Some arr \<Rightarrow> arr)
           in set_innerHTML ''decision-detail'' (decision_detail_html rt (heap s1 ! a) sigs) s1))\<close>

subsection \<open>The list (lines 204-221) and the selection (lines 223-227)\<close>

definition decision_item :: "runtime \<Rightarrow> decision \<Rightarrow> nat \<Rightarrow> bool \<Rightarrow> string" where
  \<comment> \<open>lines 209-218 at index \<open>i\<close>; \<open>active\<close> is \<^verbatim>\<open>i === selectedDecisionIndex\<close>\<close>
  \<open>decision_item rt d i active =
     (let httpStatus = num_or (http_status d) 200;
          statusColor = (if httpStatus = 200 then ''#00c853'' else ''#ff5252'');
          timeStr = (case timestamp d of
                       None \<Rightarrow> []
                     | Some ts \<Rightarrow> if ts = 0 then [] else toLocaleString rt (ts * 1000))
      in ''<div class="decision-item '' @ (if active then ''active'' else [])
         @ ''" onclick="selectDecision('' @ number_string rt (real i) @ '')">''
         @ ''<div class="round">'' @ zh_round_pre @ number_string rt (round_no d)
         @ zh_round_post @ ''</div>''
         @ ''<div class="status" style="color:'' @ statusColor @ ''">'' @ zh_dot @ '' HTTP ''
         @ number_string rt httpStatus @ ''</div>''
         @ (if timeStr \<noteq> [] then
              ''<div style="font-size:11px;color:#666;margin-top:2px;">'' @ timeStr @ ''</div>''
            else [])
         @ ''<div class="meta">symbols <b>'' @ number_string rt (num_or (symbols_count d) 0)
         @ ''</b>  Signal <span class="signal">''
         @ number_string rt (num_or (signal_count d) 0)
         @ ''</span>  wait <span class="wait">'' @ number_string rt (num_or (wait_count d) 0)
         @ ''</span></div>''
         @ ''</div>'')\<close>

fun decision_items :: "runtime \<Rightarrow> decision list \<Rightarrow> int \<Rightarrow> nat \<Rightarrow> nat list \<Rightarrow> string" where
  \<comment> \<open>the loop of lines 208-219, from index \<open>i\<close> on\<close>
  "decision_items rt h selected i [] = []"
| "decision_items rt h selected i (a # as) =
     decision_item rt (h ! a) i (int i = selected) @ decision_items rt h selected (Suc i) as"

definition renderDecisionList :: "runtime \<Rightarrow> state \<Rightarrow> outcome" where
  \<open>renderDecisionList rt s =
     (if length (currentDecisions s) = 0 then
        set_innerHTML ''decision-list''
          (''<div style="padding:40px;color:#666;text-align:center;">'' @ zh_no_decisions
           @ ''</div>'') s
      else
        set_innerHTML ''decision-list''
          (decision_items rt (heap s) (selectedDecisionIndex s) 0 (currentDecisions s)) s)\<close>

definition selectDecision :: "runtime \<Rightarrow> int \<Rightarrow> state \<Rightarrow> outcome" where
  "selectDecision rt index s =
     and_then (renderDecisionList rt (s\<lparr>selectedDecisionIndex := index\<rparr>))
       (\<lambda>s1. renderDecisionDetail rt (array_get (currentDecisions s1) index) s1)"

subsection \<open>Loading the decisions (lines 188-202)\<close>

definition allocate :: "decision list \<Rightarrow> state \<Rightarrow> nat list \<times> state" where
  \<comment> \<open>decoding the response makes one new object for each decision; the array of their
      references, and the store with them\<close>
  "allocate ds s =
     ([length (heap s) ..< length (heap s) + length ds], s\<lparr>heap := heap s @ ds\<rparr>)"

definition has_symbols :: "decision \<Rightarrow> bool" where
  \<comment> \<open>the callback of lines 194-196\<close>
  "has_symbols d = (num_or (symbols_count d) 0 > 0)"

definition decisions_loaded :: "runtime \<Rightarrow> decisions_response \<Rightarrow> state \<Rightarrow> outcome" where
  \<comment> \<open>the handler of lines 191-201\<close>
  "decisions_loaded rt response s =
     (let (allDecisions, s1) =
            allocate (case decisions response of None \<Rightarrow> [] | Some ds \<Rightarrow> ds) s;
          s2 = s1\<lparr>currentDecisions := filter (\<lambda>d. has_symbols (heap s1 ! d)) allDecisions\<rparr>;
          n_total = num_or (decisions_total response) 0
      in and_then
           (set_textContent ''ai-summary''
              (zh_total_pre @ number_string rt n_total @ zh_total_mid @ number_string rt n_total
               @ zh_round_post) s2)
           (\<lambda>s3. and_then (renderDecisionList rt s3)
              (\<lambda>s4. if length (currentDecisions s4) > 0 then selectDecision rt 0 s4
                     else Done s4)))"

definition loadAIDecisions_fetch :: "runtime \<Rightarrow> state \<Rightarrow> state" where
  \<comment> \<open>lines 189-191, up to the request\<close>
  "loadAIDecisions_fetch rt s =
     (let limit = (case elements s ''ai-limit'' of
                     None \<Rightarrow> number_string rt 8
                   | Some limitEl \<Rightarrow> value_attr limitEl)
      in s\<lparr>fetched := fetched s @ [''/decisions?limit='' @ limit]\<rparr>)"

definition loadAIDecisions_settled ::
  "runtime \<Rightarrow> decisions_response promise \<Rightarrow> state \<Rightarrow> state" where
  \<comment> \<open>\<^verbatim>\<open>.then(...).catch(...)\<close> of lines 191-201, in the state the answer arrives in\<close>
  "loadAIDecisions_settled rt p s =
     (case p of
        Pending \<Rightarrow> s
      | Rejected t err \<Rightarrow> log_error ''loadAIDecisions error:'' err s
      | Fulfilled response \<Rightarrow>
          (case decisions_loaded rt response s of
             Done s1 \<Rightarrow> s1
           | Thrown err s1 \<Rightarrow> log_error ''loadAIDecisions error:'' err s1))"

definition loadAIDecisions :: "runtime \<Rightarrow> decisions_response reply \<Rightarrow> state \<Rightarrow> state" where
  \<comment> \<open>the call together with the answer to its request, nothing running in between\<close>
  "loadAIDecisions rt answer s =
     loadAIDecisions_settled rt (fetch_json answer) (loadAIDecisions_fetch rt s)"

section \<open>Dashboard\<close>

subsection \<open>The renderers (lines 47-176)\<close>

definition stats_row1_error :: "json \<Rightarrow> js_error option" where
  \<comment> \<open>what lines 49-65 throw: reading a field of \<^verbatim>\<open>null\<close> (line 49), or \<^verbatim>\<open>toFixed\<close> called
      on a field that is not a number (lines 62-64)\<close>
  "stats_row1_error stats =
     (if stats = JNull then Some (TypeError ''Cannot read properties of null'')
      else if lacks_toFixed (property stats ''total_profit'')
              \<or> lacks_toFixed (property stats ''profit_pct'')
              \<or> lacks_toFixed (property stats ''unrealized_pnl'')
              \<or> lacks_toFixed (property stats ''win_rate'')
           then Some (TypeError ''toFixed is not a function'')
      else None)"

definition stats_row2_error :: "json \<Rightarrow> js_error option" where
  \<comment> \<open>what lines 68-71 throw, for stats that \<^verbatim>\<open>row1\<close> was built from\<close>
  "stats_row2_error stats =
     (if lacks_toFixed (property stats ''current_equity'')
         \<or> lacks_toFixed (property stats ''total_fee'')
         \<or> lacks_toFixed (property stats ''max_drawdown'')
         \<or> lacks_toFixed (property stats ''calmar'')
      then Some (TypeError ''toFixed is not a function'')
      else None)"

definition renderDashboardStats :: "runtime \<Rightarrow> json \<Rightarrow> profit_curve \<Rightarrow> state \<Rightarrow> outcome" where
  "renderDashboardStats rt stats profit s =
     (let initial = num_or (initial_equity profit) 0
      in case stats_row1_error stats of
           Some err \<Rightarrow> Thrown err s
         | None \<Rightarrow>
             and_then (set_innerHTML ''stats-row1'' (stats_row1 rt stats initial) s)
               (\<lambda>s1. case stats_row2_error stats of
                        Some err \<Rightarrow> Thrown err s1
                      | None \<Rightarrow> set_innerHTML ''stats-row2'' (stats_row2 rt stats initial) s1))"

fun series_loop :: "runtime \<Rightarrow> number \<Rightarrow> point list \<Rightarrow> chart_series \<Rightarrow> chart_series" where
  \<comment> \<open>the loop of lines 83-89 over the rest of \<^verbatim>\<open>list\<close>, pushing onto the three arrays\<close>
  "series_loop rt initial [] arrays = arrays"
| "series_loop rt initial (item # rest) arrays =
     (let ts = (case item of Tuple t e \<Rightarrow> t | Object t e \<Rightarrow> t)
      in series_loop rt initial rest
           (arrays\<lparr>xData := xData arrays @ [toLocaleString rt ts],
                   yData := yData arrays @ [case item of Tuple t e \<Rightarrow> e | Object t e \<Rightarrow> e],
                   baseLine := baseLine arrays @ [initial]\<rparr>))"

definition renderProfitChart :: "runtime \<Rightarrow> profit_curve \<Rightarrow> state \<Rightarrow> outcome" where
  \<open>renderProfitChart rt profit s =
     (case elements s ''profit_chart'' of
        None \<Rightarrow> Done s
      | Some el \<Rightarrow>
          (let list = (case data profit of None \<Rightarrow> [] | Some points \<Rightarrow> points);
               initial = num_or (initial_equity profit) 0
           in if length list = 0 then
                set_innerHTML ''profit_chart''
                  (''<div style="padding:40px;color:#666;text-align:center;">''
                   @ zh_chart_empty @ ''</div>'') s
              else
                (let s1 = s\<lparr>charts := Suc (charts s)\<rparr>;
                     arrays = series_loop rt initial list \<lparr>xData = [], yData = [], baseLine = []\<rparr>
                 in and_then
                      (set_innerHTML ''chart-legend''
                         (zh_legend_pre @ toFixed rt initial 2 @ '' USDT'') s1)
                      (\<lambda>s2. Done (s2\<lparr>chart_option := Some arrays,
                                       resize_listeners := Suc (resize_listeners s2)\<rparr>)))))\<close>

definition position_row_error :: "json \<Rightarrow> js_error option" where
  \<comment> \<open>what lines 111-117 throw for the position \<open>p\<close>: \<^verbatim>\<open>p.side\<close> when \<open>p\<close> is \<^verbatim>\<open>null\<close>
      (line 112), \<^verbatim>\<open>side.toLowerCase()\<close> when the side is not a string (line 117)\<close>
  "position_row_error p =
     (if p = JNull then Some (TypeError ''Cannot read properties of null'')
      else if lacks_toLowerCase (property p ''side'')
           then Some (TypeError ''toLowerCase is not a function'')
      else None)"

definition renderPositionsTable :: "runtime \<Rightarrow> positions_response \<Rightarrow> state \<Rightarrow> outcome" where
  \<open>renderPositionsTable rt response s =
     (let ps = (case positions response of None \<Rightarrow> [] | Some xs \<Rightarrow> xs)
      in if length ps = 0 then
           set_innerHTML ''tab-positions''
             (''<div style="padding:40px;color:#666;text-align:center;">'' @ zh_no_positions
              @ ''</div>'') s
         else
           (case first_error position_row_error ps of
              Some err \<Rightarrow> Thrown err s
            | None \<Rightarrow> set_innerHTML ''tab-positions'' (positions_table rt ps) s))\<close>

definition trade_row_error :: "json \<Rightarrow> js_error option" where
  \<comment> \<open>what lines 142-172 throw for the trade \<open>t\<close>: \<^verbatim>\<open>t.side\<close> when \<open>t\<close> is \<^verbatim>\<open>null\<close>
      (line 143), \<^verbatim>\<open>toLowerCase()\<close> on an order type or a side that is not a string
      (lines 155, 156 and 160)\<close>
  "trade_row_error t =
     (if t = JNull then Some (TypeError ''Cannot read properties of null'')
      else if lacks_toLowerCase (property t ''entry_type'')
              \<or> lacks_toLowerCase (property t ''exit_type'')
              \<or> lacks_toLowerCase (property t ''side'')
           then Some (TypeError ''toLowerCase is not a function'')
      else None)"

definition renderTradesTable :: "runtime \<Rightarrow> trade_page \<Rightarrow> state \<Rightarrow> outcome" where
  \<open>renderTradesTable rt response s =
     (let ts = (case trades response of None \<Rightarrow> [] | Some xs \<Rightarrow> xs);
          n_total = num_or (trades_total response) (real (length ts));
          n_page = num_or (page response) 1;
          n_pages = num_or (pages response) 1
      in if length ts = 0 then
           set_innerHTML ''tab-trades''
             (''<div style="padding:40px;color:#666;text-align:center;">'' @ zh_no_trades
              @ ''</div>'') s
         else
           (case first_error trade_row_error ts of
              Some err \<Rightarrow> Thrown err s
            | None \<Rightarrow> set_innerHTML ''tab-trades'' (trades_table rt ts n_total n_page n_pages) s))\<close>

subsection \<open>Loading the dashboard (lines 26-45)\<close>

definition dashboard_loaded ::
  "runtime \<Rightarrow> json \<Rightarrow> profit_curve \<Rightarrow> positions_response \<Rightarrow> trade_page \<Rightarrow> state \<Rightarrow> outcome" where
  \<comment> \<open>the handler of lines 33-44\<close>
  "dashboard_loaded rt stats profit positions_r trades_r s =
     and_then (renderDashboardStats rt stats profit (s\<lparr>console := console s @ [Log ''Data:'']\<rparr>))
    (\<lambda>s. and_then (renderProfitChart rt profit s)
    (\<lambda>s. and_then (renderPositionsTable rt positions_r s)
    (\<lambda>s. and_then (renderTradesTable rt trades_r s)
    (\<lambda>s. and_then
       (set_textContent ''pos-count''
          (number_string rt
             (case positions positions_r of None \<Rightarrow> 0 | Some ps \<Rightarrow> real (length ps))) s)
    (\<lambda>s. and_then
       (set_textContent ''trade-count'' (number_string rt (num_or (trades_total trades_r) 0)) s)
    (\<lambda>s. set_textContent ''dashboard-subtitle''
            (''Stats | Base: '' @ toFixed rt (num_or (initial_equity profit) 0) 2 @ '' USDT'')
            s))))))"

definition loadDashboard_fetch :: "state \<Rightarrow> state" where
  \<comment> \<open>lines 27-32: the log line and the four requests\<close>
  "loadDashboard_fetch s =
     s\<lparr>console := console s @ [Log ''loadDashboard...''],
       fetched := fetched s @ [''/dashboard_stats'', ''/profit_curve'', ''/positions'',
                               ''/completed_trades?limit=10&page=1'']\<rparr>"

definition loadDashboard_settled ::
  "runtime \<Rightarrow> (json \<times> profit_curve \<times> positions_response \<times> trade_page) promise \<Rightarrow> state \<Rightarrow> state"
  where
  \<comment> \<open>\<^verbatim>\<open>.then(...).catch(...)\<close> of lines 33-44 on the promise of \<^verbatim>\<open>Promise.all\<close>\<close>
  "loadDashboard_settled rt p s =
     (case p of
        Pending \<Rightarrow> s
      | Rejected t err \<Rightarrow> log_error ''loadDashboard error:'' err s
      | Fulfilled results \<Rightarrow>
          (case results of (stats, profit, positions_r, trades_r) \<Rightarrow>
             (case dashboard_loaded rt stats profit positions_r trades_r s of
                Done s1 \<Rightarrow> s1
              | Thrown err s1 \<Rightarrow> log_error ''loadDashboard error:'' err s1)))"

definition loadDashboard ::
  "runtime \<Rightarrow> json reply \<Rightarrow> profit_curve reply \<Rightarrow> positions_response reply \<Rightarrow> trade_page reply
     \<Rightarrow> state \<Rightarrow> state" where
  \<comment> \<open>the call together with the answers to its four requests\<close>
  "loadDashboard rt a1 a2 a3 a4 s =
     loadDashboard_settled rt
       (promise_all4 (fetch_json a1) (fetch_json a2) (fetch_json a3) (fetch_json a4))
       (loadDashboard_fetch s)"

subsection \<open>Paging the trades (lines 178-186)\<close>

definition loadTradesPage_settled :: "runtime \<Rightarrow> trade_page promise \<Rightarrow> state \<Rightarrow> state" where
  \<comment> \<open>the handler of lines 182-185; the chain ends there, without a \<^verbatim>\<open>catch\<close>\<close>
  "loadTradesPage_settled rt p s =
     (case p of
        Pending \<Rightarrow> s
      | Rejected t err \<Rightarrow> s\<lparr>unhandled_rejections := unhandled_rejections s @ [err]\<rparr>
      | Fulfilled response \<Rightarrow>
          (case and_then (renderTradesTable rt response s)
                  (set_textContent ''trade-count''
                     (number_string rt (num_or (trades_total response) 0))) of
             Done s1 \<Rightarrow> s1
           | Thrown err s1 \<Rightarrow> s1\<lparr>unhandled_rejections := unhandled_rejections s1 @ [err]\<rparr>))"

definition loadTradesPage_fetch :: "runtime \<Rightarrow> number \<Rightarrow> state \<Rightarrow> state" where
  \<comment> \<open>lines 181-182, up to the request\<close>
  "loadTradesPage_fetch rt p s =
     s\<lparr>currentTradesPage := p,
       fetched := fetched s @ [''/completed_trades?limit=10&page='' @ number_string rt p]\<rparr>"

definition loadTradesPage :: "runtime \<Rightarrow> number \<Rightarrow> trade_page reply \<Rightarrow> state \<Rightarrow> state" where
  \<comment> \<open>the call together with the answer to its request, if it makes one\<close>
  "loadTradesPage rt p answer s =
     (if p < 1 then s
      else loadTradesPage_settled rt (fetch_json answer) (loadTradesPage_fetch rt p s))"

section \<open>The page at work\<close>

text \<open>
  The state the script starts in (lines 2, 3 and 178) on a given page, and the states the
  page passes through. Each of the three loads is a call, which sends its requests, and
  the answer arriving at some later moment, with anything in between. A click on an item
  of the rendered list runs \<^verbatim>\<open>selectDecision(i)\<close> for a position \<open>i\<close> of the list, and the
  pager's buttons run \<^verbatim>\<open>loadTradesPage\<close>.
\<close>

definition initial_state :: "(string \<Rightarrow> element option) \<Rightarrow> state" where
  "initial_state doc =
     \<lparr>currentDecisions = [], selectedDecisionIndex = 0, currentTradesPage = 1, heap = [],
      elements = doc, charts = 0, chart_option = None, resize_listeners = 0,
      console = [], fetched = [], unhandled_rejections = []\<rparr>"

inductive reachable :: "runtime \<Rightarrow> (string \<Rightarrow> element option) \<Rightarrow> state \<Rightarrow> bool"
  for rt :: runtime and doc :: "string \<Rightarrow> element option" where
  start: "reachable rt doc (initial_state doc)"
| dashboard: "reachable rt doc s \<Longrightarrow> reachable rt doc (loadDashboard_fetch s)"
| dashboard_answer: "reachable rt doc s \<Longrightarrow> reachable rt doc (loadDashboard_settled rt p4 s)"
| trades: "reachable rt doc s \<Longrightarrow> \<not> n < 1 \<Longrightarrow> reachable rt doc (loadTradesPage_fetch rt n s)"
| trades_answer: "reachable rt doc s \<Longrightarrow> reachable rt doc (loadTradesPage_settled rt pt s)"
| load: "reachable rt doc s \<Longrightarrow> reachable rt doc (loadAIDecisions_fetch rt s)"
| answer: "reachable rt doc s \<Longrightarrow> reachable rt doc (loadAIDecisions_settled rt p s)"
| click: "reachable rt doc s \<Longrightarrow> 0 \<le> i \<Longrightarrow> i < int (length (currentDecisions s))
          \<Longrightarrow> reachable rt doc (state_of (selectDecision rt i s))"

subsection \<open>Notions the statements use\<close>

definition selection_valid :: "state \<Rightarrow> bool" where
  "selection_valid s =
     (0 \<le> selectedDecisionIndex s \<and> selectedDecisionIndex s < int (length (currentDecisions s)))"

definition without_signals :: "decision \<Rightarrow> decision" where
  \<comment> \<open>a decision apart from its signals, which a render reorders\<close>
  "without_signals d = d\<lparr>signals := None\<rparr>"

definition written :: "string \<Rightarrow> content \<Rightarrow> (string \<Rightarrow> element option) \<Rightarrow> string \<Rightarrow> element option" where
  \<comment> \<open>the page with new content in the element \<open>i\<close>, if it has one\<close>
  "written i c doc = (case doc i of None \<Rightarrow> doc | Some el \<Rightarrow> doc(i \<mapsto> el\<lparr>inner := c\<rparr>))"

definition innerHTML_of :: "state \<Rightarrow> string \<Rightarrow> string" where
  "innerHTML_of s i =
     (case elements s i of
        None \<Rightarrow> []
      | Some el \<Rightarrow> (case inner el of InnerHTML html \<Rightarrow> html | TextContent txt \<Rightarrow> []))"

definition keeps_selection :: "string \<Rightarrow> state \<Rightarrow> state \<Rightarrow> bool" where
  \<comment> \<open>from \<open>s\<close> to \<open>s'\<close> the decision list and the selection stay, and the element \<open>j\<close>
      is neither added nor removed\<close>
  "keeps_selection j s s' =
     (currentDecisions s' = currentDecisions s
      \<and> selectedDecisionIndex s' = selectedDecisionIndex s
      \<and> (elements s' j = None) = (elements s j = None))"

section \<open>Example inputs\<close>

text \<open>
  A host that prints every number as \<open>#\<close>, a page with every element the script looks up,
  and a decisions response of three rounds: two with a waiting signal in front of an
  opening one, and an empty round.
\<close>

definition example_runtime :: runtime where
  "example_runtime =
     \<lparr>number_string = (\<lambda>n. ''#''), object_string = (\<lambda>v. ''[object Object]''),
      toFixed = (\<lambda>n digits. ''#''), toLocaleString = (\<lambda>ms. ''#''),
      JSON_stringify = (\<lambda>v. ''{}''), stats_row1 = (\<lambda>stats initial. []),
      stats_row2 = (\<lambda>stats initial. []), positions_table = (\<lambda>ps. []),
      trades_table = (\<lambda>ts n_total n_page n_pages. [])\<rparr>"

definition example_page :: "string \<Rightarrow> element option" where
  "example_page i =
     (if i \<in> set [''stats-row1'', ''stats-row2'', ''profit_chart'', ''chart-legend'',
                   ''tab-positions'', ''tab-trades'', ''pos-count'', ''trade-count'',
                   ''dashboard-subtitle'', ''ai-limit'', ''ai-summary'', ''decision-list'',
                   ''decision-detail'']
      then Some \<lparr>inner = InnerHTML [], value_attr = ''8''\<rparr> else None)"

definition example_signal :: "string \<Rightarrow> string \<Rightarrow> signal" where
  "example_signal name act =
     \<lparr>symbol = Some name, action = Some act, entry = None, position_size = None,
      quantity = None, order_value = None, amount = None, stop_loss = None,
      take_profit = None, ai_decision = None, ai_reason = None, reason = None,
      invalidations = None\<rparr>"

definition example_decision :: "number \<Rightarrow> number \<Rightarrow> signal list \<Rightarrow> decision" where
  "example_decision n count sigs =
     \<lparr>round_no = n, timestamp = None, http_status = None, symbols_count = Some count,
      signal_count = None, wait_count = None, signals = Some sigs, request = None,
      response_raw = None\<rparr>"

definition example_response :: decisions_response where
  "example_response =
     \<lparr>decisions = Some
        [example_decision 1 2 [example_signal ''BTCUSDT'' ''wait'',
                               example_signal ''ETHUSDT'' ''open_long''],
         example_decision 2 2 [example_signal ''SOLUSDT'' ''hold'',
                               example_signal ''XRPUSDT'' ''open_short''],
         example_decision 3 0 []],
      decisions_total = Some 3\<rparr>"

definition example_loaded :: state where
  \<comment> \<open>the page after its first load of the decisions\<close>
  "example_loaded =
     loadAIDecisions example_runtime (Some (0, Response 200 (Some example_response)))
       (initial_state example_page)"

definition empty_response :: decisions_response where
  "empty_response = \<lparr>decisions = Some [example_decision 4 0 []], decisions_total = Some 1\<rparr>"

definition hostile_signal :: signal where
  "hostile_signal =
     (example_signal ''BTCUSDT'' ''wait'')
       \<lparr>reason := Some ''<i>x</i>'', invalidations := Some [''<script>alert(1)</script>'']\<rparr>"

definition hostile_loaded :: state where
  "hostile_loaded =
     loadAIDecisions example_runtime
       (Some (0, Response 200
          (Some \<lparr>decisions = Some [example_decision 1 1 [hostile_signal]],
                 decisions_total = Some 1\<rparr>)))
       (initial_state example_page)"

definition example_curve :: profit_curve where
  "example_curve = \<lparr>initial_equity = Some 5000, data = Some [Tuple 1 5000, Object 2 5100]\<rparr>"





section \<open>The order of the signals\<close>

lemma sort_insert_waits:
  "\<forall>w\<in>set W. is_wait w \<Longrightarrow>
   sort_insert compare_wait x W = (if is_wait x then W @ [x] else x # W)"
  by (induction W) (auto simp: compare_wait_def)

lemma sort_insert_partition:
  "\<forall>a\<in>set A. \<not> is_wait a \<Longrightarrow> \<forall>w\<in>set W. is_wait w \<Longrightarrow>
   sort_insert compare_wait x (A @ W) = (if is_wait x then A @ W @ [x] else A @ x # W)"
  by (induction A) (auto simp: compare_wait_def sort_insert_waits)

lemma array_sort_snoc: "array_sort cmp (xs @ [x]) = sort_insert cmp x (array_sort cmp xs)"
  by (simp add: array_sort_def)

lemma sort_signals_partition:
  "sort_signals sigs = filter (\<lambda>s. \<not> is_wait s) sigs @ filter is_wait sigs"
proof (induction sigs rule: rev_induct)
  case Nil
  show ?case by (simp add: sort_signals_def array_sort_def)
next
  case (snoc x xs)
  have "sort_signals (xs @ [x]) = sort_insert compare_wait x (sort_signals xs)"
    by (simp add: sort_signals_def array_sort_snoc)
  also have "\<dots> = sort_insert compare_wait x (filter (\<lambda>s. \<not> is_wait s) xs @ filter is_wait xs)"
    by (simp add: snoc.IH)
  also have "\<dots> = (if is_wait x then filter (\<lambda>s. \<not> is_wait s) xs @ filter is_wait xs @ [x]
                    else filter (\<lambda>s. \<not> is_wait s) xs @ x # filter is_wait xs)"
    by (rule sort_insert_partition) auto
  finally show ?case by simp
qed

lemma sort_signals_idem: "sort_signals (sort_signals sigs) = sort_signals sigs"
  by (simp add: sort_signals_partition filter_empty_conv)

text \<open>
  C2. The order the detail render gives the signals is a stable partition: the signals
  whose action is \<^verbatim>\<open>wait\<close> or \<^verbatim>\<open>hold\<close> come after all the others, each group in the order
  it had, and the comparator is \<open>0\<close> exactly on two signals of the same group.
\<close>

theorem detail_sort_stable_partition:
  "sort_signals sigs = filter (\<lambda>s. \<not> is_wait s) sigs @ filter is_wait sigs
   \<and> (compare_wait a b = 0) = (is_wait a = is_wait b)
   \<and> is_wait a = (action a = Some ''wait'' \<or> action a = Some ''hold'')"
  by (simp add: sort_signals_partition compare_wait_def is_wait_def)

section \<open>What a statement leaves as it is\<close>

lemma set_innerHTML_Some:
  "elements s i = Some el \<Longrightarrow>
   set_innerHTML i html s = Done (s\<lparr>elements := (elements s)(i \<mapsto> el\<lparr>inner := InnerHTML html\<rparr>)\<rparr>)"
  by (simp add: set_innerHTML_def)

lemma set_textContent_Some:
  "elements s i = Some el \<Longrightarrow>
   set_textContent i txt s = Done (s\<lparr>elements := (elements s)(i \<mapsto> el\<lparr>inner := TextContent txt\<rparr>)\<rparr>)"
  by (simp add: set_textContent_def)

lemma keeps_selection_refl: "keeps_selection j s s"
  by (simp add: keeps_selection_def)

lemma keeps_selection_trans:
  "keeps_selection j s s1 \<Longrightarrow> keeps_selection j s1 s2 \<Longrightarrow> keeps_selection j s s2"
  by (simp add: keeps_selection_def)

lemma keeps_and_then:
  assumes "keeps_selection j s (state_of x)"
    and "\<And>s1. keeps_selection j s1 (state_of (g s1))"
  shows "keeps_selection j s (state_of (and_then x g))"
proof (cases x)
  case (Done s1)
  with assms(1) have "keeps_selection j s s1" by simp
  from keeps_selection_trans [OF this assms(2)] Done show ?thesis by simp
next
  case (Thrown e s1)
  with assms(1) show ?thesis by simp
qed

lemma keeps_set_innerHTML: "keeps_selection j s (state_of (set_innerHTML i html s))"
  by (simp add: keeps_selection_def set_innerHTML_def split: option.split)

lemma keeps_set_textContent: "keeps_selection j s (state_of (set_textContent i txt s))"
  by (simp add: keeps_selection_def set_textContent_def split: option.split)

lemma heap_set_innerHTML: "heap (state_of (set_innerHTML i html s)) = heap s"
  by (simp add: set_innerHTML_def split: option.split)

lemma heap_set_textContent: "heap (state_of (set_textContent i txt s)) = heap s"
  by (simp add: set_textContent_def split: option.split)

lemma keeps_renderDashboardStats:
  "keeps_selection j s (state_of (renderDashboardStats rt stats profit s))"
proof (cases "stats_row1_error stats")
  case None
  have "keeps_selection j s1
          (state_of (case stats_row2_error stats of
                       Some err \<Rightarrow> Thrown err s1
                     | None \<Rightarrow> set_innerHTML ''stats-row2'' html s1))" for s1 html
    by (cases "stats_row2_error stats") (simp_all add: keeps_selection_refl keeps_set_innerHTML)
  with None show ?thesis
    unfolding renderDashboardStats_def Let_def
    by (simp add: keeps_and_then keeps_set_innerHTML)
next
  case (Some err)
  then show ?thesis by (simp add: renderDashboardStats_def keeps_selection_refl)
qed

lemma keeps_renderProfitChart:
  "keeps_selection j s (state_of (renderProfitChart rt profit s))"
proof (cases "elements s ''profit_chart''")
  case None
  then show ?thesis by (simp add: renderProfitChart_def keeps_selection_refl)
next
  case (Some el)
  show ?thesis
  proof (cases "length (case data profit of None \<Rightarrow> [] | Some points \<Rightarrow> points) = 0")
    case True
    with Some show ?thesis by (simp add: renderProfitChart_def Let_def keeps_set_innerHTML)
  next
    case False
    let ?s1 = "s\<lparr>charts := Suc (charts s)\<rparr>"
    have "keeps_selection j s ?s1" by (simp add: keeps_selection_def)
    moreover have "keeps_selection j ?s1 (state_of (and_then (set_innerHTML ''chart-legend'' html ?s1)
        (\<lambda>s2. Done (s2\<lparr>chart_option := Some arrays, resize_listeners := Suc (resize_listeners s2)\<rparr>))))"
      for html arrays
      by (intro keeps_and_then keeps_set_innerHTML) (simp add: keeps_selection_def)
    ultimately show ?thesis
      using Some False
      by (simp add: renderProfitChart_def Let_def) (rule keeps_selection_trans)
  qed
qed

lemma keeps_renderPositionsTable:
  "keeps_selection j s (state_of (renderPositionsTable rt response s))"
  by (simp add: renderPositionsTable_def Let_def keeps_set_innerHTML keeps_selection_refl
      split: option.split)

lemma keeps_renderTradesTable:
  "keeps_selection j s (state_of (renderTradesTable rt response s))"
  by (simp add: renderTradesTable_def Let_def keeps_set_innerHTML keeps_selection_refl
      split: option.split)

lemma keeps_dashboard_loaded:
  "keeps_selection j s (state_of (dashboard_loaded rt stats profit positions_r trades_r s))"
proof -
  let ?s0 = "s\<lparr>console := console s @ [Log ''Data:'']\<rparr>"
  have "keeps_selection j s ?s0" by (simp add: keeps_selection_def)
  moreover have "keeps_selection j ?s0
      (state_of (dashboard_loaded rt stats profit positions_r trades_r s))"
    unfolding dashboard_loaded_def
    by (intro keeps_and_then keeps_renderDashboardStats keeps_renderProfitChart
        keeps_renderPositionsTable keeps_renderTradesTable keeps_set_textContent)
  ultimately show ?thesis by (rule keeps_selection_trans)
qed

lemma keeps_log_error: "keeps_selection j s (log_error label e s)"
  by (simp add: keeps_selection_def log_error_def)

lemma keeps_loadDashboard_settled: "keeps_selection j s (loadDashboard_settled rt p s)"
proof (cases p)
  case Pending
  then show ?thesis by (simp add: loadDashboard_settled_def keeps_selection_refl)
next
  case (Rejected t err)
  then show ?thesis by (simp add: loadDashboard_settled_def keeps_log_error)
next
  case (Fulfilled results)
  obtain stats profit positions_r trades_r where r: "results = (stats, profit, positions_r, trades_r)"
    by (cases results) auto
  show ?thesis
    using keeps_dashboard_loaded [of j s rt stats profit positions_r trades_r]
    by (cases "dashboard_loaded rt stats profit positions_r trades_r s")
       (auto simp: Fulfilled r loadDashboard_settled_def
             intro: keeps_selection_trans keeps_log_error)
qed

lemma keeps_loadTradesPage_settled: "keeps_selection j s (loadTradesPage_settled rt p s)"
proof (cases p)
  case Pending
  then show ?thesis by (simp add: loadTradesPage_settled_def keeps_selection_refl)
next
  case (Rejected t err)
  then show ?thesis by (simp add: loadTradesPage_settled_def keeps_selection_def)
next
  case (Fulfilled response)
  let ?x = "and_then (renderTradesTable rt response s)
              (set_textContent ''trade-count'' (number_string rt (num_or (trades_total response) 0)))"
  have "keeps_selection j s (state_of ?x)"
    by (intro keeps_and_then keeps_renderTradesTable keeps_set_textContent)
  then show ?thesis
    by (cases ?x) (simp_all add: Fulfilled loadTradesPage_settled_def keeps_selection_def)
qed


section \<open>The decision view\<close>

lemma state_of_and_then:
  "state_of (and_then x g) = (case x of Done s' \<Rightarrow> state_of (g s') | Thrown e s' \<Rightarrow> s')"
  by (cases x) simp_all

lemma keeps_renderDecisionList: "keeps_selection j s (state_of (renderDecisionList rt s))"
  by (simp add: renderDecisionList_def keeps_set_innerHTML)

lemma heap_renderDecisionList: "heap (state_of (renderDecisionList rt s)) = heap s"
  by (simp add: renderDecisionList_def heap_set_innerHTML)

lemma heap_renderDecisionDetail:
  "heap (state_of (renderDecisionDetail rt ref s)) =
     (case ref of
        None \<Rightarrow> heap s
      | Some a \<Rightarrow>
          (heap s)[a := (heap s ! a)\<lparr>signals := map_option sort_signals (signals (heap s ! a))\<rparr>])"
proof (cases ref)
  case None
  then show ?thesis by (simp add: renderDecisionDetail_def heap_set_innerHTML)
next
  case (Some a)
  show ?thesis
  proof (cases "signals (heap s ! a)")
    case None
    then have "(heap s ! a)\<lparr>signals := None\<rparr> = heap s ! a"
      by (metis decision.surjective decision.update_convs(7))
    then have "(heap s)[a := (heap s ! a)\<lparr>signals := None\<rparr>] = heap s"
      by (simp only: list_update_id)
    with None \<open>ref = Some a\<close> show ?thesis
      by (simp add: renderDecisionDetail_def Let_def heap_set_innerHTML)
  next
    case (Some sigs)
    with \<open>ref = Some a\<close> show ?thesis
      by (simp add: renderDecisionDetail_def Let_def heap_set_innerHTML)
  qed
qed

lemma keeps_renderDecisionDetail:
  "keeps_selection j s (state_of (renderDecisionDetail rt ref s))"
proof (cases ref)
  case None
  then show ?thesis by (simp add: renderDecisionDetail_def keeps_set_innerHTML)
next
  case (Some a)
  let ?s1 = "case signals (heap s ! a) of
               None \<Rightarrow> s
             | Some sigs \<Rightarrow> s\<lparr>heap := (heap s)[a := (heap s ! a)\<lparr>signals := Some (sort_signals sigs)\<rparr>]\<rparr>"
  have "keeps_selection j s ?s1"
    by (simp add: keeps_selection_def split: option.split)
  moreover have "keeps_selection j ?s1 (state_of (set_innerHTML ''decision-detail'' html ?s1))" for html
    by (rule keeps_set_innerHTML)
  ultimately show ?thesis
    using Some by (simp add: renderDecisionDetail_def Let_def) (rule keeps_selection_trans)
qed

lemma without_signals_renderDecisionDetail:
  "map without_signals (heap (state_of (renderDecisionDetail rt ref s))) = map without_signals (heap s)"
proof (cases ref)
  case None
  then show ?thesis by (simp add: heap_renderDecisionDetail)
next
  case (Some a)
  have "map without_signals ((heap s)[a := (heap s ! a)\<lparr>signals := v\<rparr>]) = map without_signals (heap s)" for v
  proof (cases "a < length (heap s)")
    case True
    have "map without_signals ((heap s)[a := (heap s ! a)\<lparr>signals := v\<rparr>])
            = (map without_signals (heap s))[a := without_signals ((heap s ! a)\<lparr>signals := v\<rparr>)]"
      by (rule map_update)
    also have "without_signals ((heap s ! a)\<lparr>signals := v\<rparr>) = map without_signals (heap s) ! a"
      using True by (simp add: without_signals_def)
    finally show ?thesis by (simp only: list_update_id)
  next
    case False
    then show ?thesis by (simp add: list_update_beyond)
  qed
  with Some show ?thesis by (simp add: heap_renderDecisionDetail)
qed

lemma frame_selectDecision:
  "currentDecisions (state_of (selectDecision rt i s)) = currentDecisions s"
  "selectedDecisionIndex (state_of (selectDecision rt i s)) = i"
  "(elements (state_of (selectDecision rt i s)) j = None) = (elements s j = None)"
  "map without_signals (heap (state_of (selectDecision rt i s))) = map without_signals (heap s)"
proof -
  let ?s0 = "s\<lparr>selectedDecisionIndex := i\<rparr>"
  have l: "currentDecisions (state_of (renderDecisionList rt ?s0)) = currentDecisions s"
    "selectedDecisionIndex (state_of (renderDecisionList rt ?s0)) = i"
    "heap (state_of (renderDecisionList rt ?s0)) = heap s"
    "(elements (state_of (renderDecisionList rt ?s0)) j = None) = (elements s j = None)"
    using keeps_renderDecisionList [of j ?s0 rt]
    by (simp_all add: keeps_selection_def heap_renderDecisionList)
  have d: "currentDecisions (state_of (renderDecisionDetail rt ref s1)) = currentDecisions s1"
    "selectedDecisionIndex (state_of (renderDecisionDetail rt ref s1)) = selectedDecisionIndex s1"
    "(elements (state_of (renderDecisionDetail rt ref s1)) j = None) = (elements s1 j = None)"
    for ref s1
    using keeps_renderDecisionDetail [of j s1 rt ref] by (simp_all add: keeps_selection_def)
  show "currentDecisions (state_of (selectDecision rt i s)) = currentDecisions s"
    "selectedDecisionIndex (state_of (selectDecision rt i s)) = i"
    "(elements (state_of (selectDecision rt i s)) j = None) = (elements s j = None)"
    "map without_signals (heap (state_of (selectDecision rt i s))) = map without_signals (heap s)"
    using l
    by (cases "renderDecisionList rt ?s0";
        simp add: selectDecision_def d without_signals_renderDecisionDetail)+
qed

lemma nth_new_objects:
  "map ((!) (xs @ ys)) [length xs ..< length xs + length ys] = ys"
  by (rule nth_equalityI) (simp_all add: nth_append)

lemma frame_decisions_loaded:
  fixes rt response s
  defines "ds \<equiv> (case decisions response of None \<Rightarrow> [] | Some xs \<Rightarrow> xs)"
  defines "s' \<equiv> state_of (decisions_loaded rt response s)"
  shows "currentDecisions s' =
           filter (\<lambda>a. has_symbols ((heap s @ ds) ! a)) [length (heap s) ..< length (heap s) + length ds]"
    and "map without_signals (heap s') = map without_signals (heap s @ ds)"
    and "(elements s' j = None) = (elements s j = None)"
proof -
  let ?kept = "filter (\<lambda>a. has_symbols ((heap s @ ds) ! a)) [length (heap s) ..< length (heap s) + length ds]"
  let ?s2 = "s\<lparr>heap := heap s @ ds, currentDecisions := ?kept\<rparr>"
  let ?n = "num_or (decisions_total response) 0"
  let ?summary = "zh_total_pre @ number_string rt ?n @ zh_total_mid @ number_string rt ?n @ zh_round_post"
  let ?rest = "\<lambda>s3. and_then (renderDecisionList rt s3)
                 (\<lambda>s4. if length (currentDecisions s4) > 0 then selectDecision rt 0 s4 else Done s4)"
  have unfold: "decisions_loaded rt response s = and_then (set_textContent ''ai-summary'' ?summary ?s2) ?rest"
    by (simp add: decisions_loaded_def allocate_def Let_def ds_def)
  have rest: "currentDecisions (state_of (?rest s3)) = currentDecisions s3
      \<and> map without_signals (heap (state_of (?rest s3))) = map without_signals (heap s3)
      \<and> (elements (state_of (?rest s3)) j = None) = (elements s3 j = None)" for s3
    using keeps_renderDecisionList [of j s3 rt] heap_renderDecisionList [of rt s3]
    by (cases "renderDecisionList rt s3") (simp_all add: frame_selectDecision keeps_selection_def)
  have first: "currentDecisions (state_of (set_textContent ''ai-summary'' ?summary ?s2)) = ?kept"
    "heap (state_of (set_textContent ''ai-summary'' ?summary ?s2)) = heap s @ ds"
    "(elements (state_of (set_textContent ''ai-summary'' ?summary ?s2)) j = None) = (elements s j = None)"
    using keeps_set_textContent [of j ?s2 "''ai-summary''" ?summary]
    by (simp_all add: keeps_selection_def heap_set_textContent)
  show "currentDecisions s' = ?kept"
    and "map without_signals (heap s') = map without_signals (heap s @ ds)"
    and "(elements s' j = None) = (elements s j = None)"
    unfolding s'_def unfold using first rest
    by (cases "set_textContent ''ai-summary'' ?summary ?s2"; simp)+
qed

lemma selected_decisions_loaded:
  assumes "elements s ''ai-summary'' \<noteq> None" and "elements s ''decision-list'' \<noteq> None"
  shows "selectedDecisionIndex (state_of (decisions_loaded rt response s)) =
           (if currentDecisions (state_of (decisions_loaded rt response s)) = [] then selectedDecisionIndex s
            else 0)"
proof -
  let ?ds = "case decisions response of None \<Rightarrow> [] | Some xs \<Rightarrow> xs"
  let ?kept = "filter (\<lambda>a. has_symbols ((heap s @ ?ds) ! a)) [length (heap s) ..< length (heap s) + length ?ds]"
  let ?s2 = "s\<lparr>heap := heap s @ ?ds, currentDecisions := ?kept\<rparr>"
  let ?n = "num_or (decisions_total response) 0"
  let ?summary = "zh_total_pre @ number_string rt ?n @ zh_total_mid @ number_string rt ?n @ zh_round_post"
  let ?rest = "\<lambda>s3. and_then (renderDecisionList rt s3)
                 (\<lambda>s4. if length (currentDecisions s4) > 0 then selectDecision rt 0 s4 else Done s4)"
  have unfold: "decisions_loaded rt response s = and_then (set_textContent ''ai-summary'' ?summary ?s2) ?rest"
    by (simp add: decisions_loaded_def allocate_def Let_def)
  from assms obtain summary_el list_el where
    els: "elements s ''ai-summary'' = Some summary_el" "elements s ''decision-list'' = Some list_el"
    by auto
  let ?s3 = "?s2\<lparr>elements := (elements s)(''ai-summary'' \<mapsto> summary_el\<lparr>inner := TextContent ?summary\<rparr>)\<rparr>"
  have step1: "set_textContent ''ai-summary'' ?summary ?s2 = Done ?s3"
    using els(1) by (simp add: set_textContent_Some)
  have "elements ?s3 ''decision-list'' = Some list_el" using els(2) by simp
  then have "\<exists>s4. renderDecisionList rt ?s3 = Done s4"
    unfolding renderDecisionList_def set_innerHTML_def by simp
  then obtain s4 where step2: "renderDecisionList rt ?s3 = Done s4" ..
  have s4: "currentDecisions s4 = ?kept" "selectedDecisionIndex s4 = selectedDecisionIndex s"
    using keeps_renderDecisionList [of "[]" ?s3 rt] step2 by (simp_all add: keeps_selection_def)
  have kept: "currentDecisions (state_of (decisions_loaded rt response s)) = ?kept"
    using frame_decisions_loaded(1) [of rt response s] by simp
  show ?thesis
    unfolding kept unfolding unfold step1 and_then.simps step2
    using s4 by (simp add: frame_selectDecision)
qed

lemma elements_loadAIDecisions_settled:
  "(elements (loadAIDecisions_settled rt p s) j = None) = (elements s j = None)"
proof (cases p)
  case (Fulfilled response)
  then show ?thesis
    using frame_decisions_loaded(3) [of rt response s j]
    by (cases "decisions_loaded rt response s")
       (simp_all add: loadAIDecisions_settled_def log_error_def)
qed (simp_all add: loadAIDecisions_settled_def log_error_def)

lemma selected_loadAIDecisions_settled:
  assumes "elements s ''ai-summary'' \<noteq> None" and "elements s ''decision-list'' \<noteq> None"
  shows "selectedDecisionIndex (loadAIDecisions_settled rt (Fulfilled response) s) =
           (if currentDecisions (loadAIDecisions_settled rt (Fulfilled response) s) = []
            then selectedDecisionIndex s else 0)"
  using selected_decisions_loaded [OF assms, of rt response]
  by (cases "decisions_loaded rt response s")
     (simp_all add: loadAIDecisions_settled_def log_error_def)

lemma has_symbols_nonzero: "has_symbols d \<Longrightarrow> symbols_count d \<noteq> Some 0"
  by (auto simp: has_symbols_def num_or_def)

lemma has_symbols_without_signals: "has_symbols (without_signals d) = has_symbols d"
  by (simp add: has_symbols_def without_signals_def)

lemma same_without_signals:
  assumes "map without_signals h' = map without_signals h" and "a < length h"
  shows "without_signals (h' ! a) = without_signals (h ! a)"
proof -
  from assms(1) have "length h' = length h" by (rule map_eq_imp_length_eq)
  with assms show ?thesis by (metis nth_map)
qed

text \<open>Evaluating the flows on the example inputs.\<close>

lemmas example_defs = example_loaded_def example_response_def empty_response_def
  example_decision_def example_signal_def example_page_def initial_state_def
  hostile_loaded_def hostile_signal_def

lemmas flow_defs = loadAIDecisions_def loadAIDecisions_fetch_def loadAIDecisions_settled_def
  decisions_loaded_def allocate_def selectDecision_def renderDecisionList_def
  renderDecisionDetail_def set_innerHTML_def set_textContent_def log_error_def array_get_def
  has_symbols_def num_or_def Let_def

lemma example_loaded_decisions:
  "currentDecisions example_loaded = [0, 1]" "selectedDecisionIndex example_loaded = 0"
  "elements example_loaded ''decision-list'' \<noteq> None"
  "elements example_loaded ''decision-detail'' \<noteq> None"
  "elements example_loaded ''ai-summary'' \<noteq> None"
  by (simp_all add: example_defs flow_defs upt_rec)

lemma example_loaded_heap:
  "map (map_option (map symbol) \<circ> signals) (heap example_loaded) =
     [Some [Some ''ETHUSDT'', Some ''BTCUSDT''], Some [Some ''SOLUSDT'', Some ''XRPUSDT''], Some []]"
  "map round_no (heap example_loaded) = [1, 2, 3]"
  by (simp_all add: example_defs flow_defs upt_rec sort_signals_partition is_wait_def)

lemma reachable_example_loaded: "reachable example_runtime example_page example_loaded"
  unfolding example_loaded_def loadAIDecisions_def
  by (intro reachable.answer reachable.load reachable.start)


lemma example_loaded_objects:
  "heap example_loaded =
     [example_decision 1 2 [example_signal ''ETHUSDT'' ''open_long'',
                            example_signal ''BTCUSDT'' ''wait''],
      example_decision 2 2 [example_signal ''SOLUSDT'' ''hold'',
                            example_signal ''XRPUSDT'' ''open_short''],
      example_decision 3 0 []]"
  by (simp add: example_defs flow_defs upt_rec sort_signals_partition is_wait_def)

subsection \<open>The render and the stored signals\<close>

text \<open>
  After the first load of the example response the second decision is stored with its
  signals in the order of the response, \<^verbatim>\<open>hold\<close> first. Rendering its detail, as a click on
  it does, leaves them stored the other way round: the claim C4 as it is written, that the
  render does not change the stored order, fails.
\<close>

theorem render_reorders_stored_signals:
  "map_option (map symbol) (signals (heap example_loaded ! 1))
     = Some [Some ''SOLUSDT'', Some ''XRPUSDT'']
   \<and> map_option (map symbol)
       (signals (heap (state_of (renderDecisionDetail example_runtime
                                   (array_get (currentDecisions example_loaded) 1) example_loaded)) ! 1))
     = Some [Some ''XRPUSDT'', Some ''SOLUSDT'']
   \<and> signals (heap (state_of (renderDecisionDetail example_runtime
                                 (array_get (currentDecisions example_loaded) 1) example_loaded)) ! 1)
     \<noteq> signals (heap example_loaded ! 1)"
  by (simp add: heap_renderDecisionDetail example_loaded_decisions example_loaded_objects
      array_get_def example_decision_def example_signal_def sort_signals_partition is_wait_def)

text \<open>
  C4, as amended. Rendering the detail of a stored decision sorts its signals where they
  are stored: afterwards the store holds, for that decision, the stable partition of the
  signals it held (those that wait or hold behind the others, each group in its order);
  no other decision and no other field changes; the list of loaded decisions is the same;
  and rendering the same decision once more changes the store no further.
\<close>

theorem renderDecisionDetail_sorts_in_place:
  "heap (state_of (renderDecisionDetail rt (Some a) s)) =
     (heap s)[a := (heap s ! a)\<lparr>signals :=
        map_option (\<lambda>sigs. filter (\<lambda>x. \<not> is_wait x) sigs @ filter is_wait sigs)
          (signals (heap s ! a))\<rparr>]
   \<and> currentDecisions (state_of (renderDecisionDetail rt (Some a) s)) = currentDecisions s
   \<and> heap (state_of (renderDecisionDetail rt (Some a) (state_of (renderDecisionDetail rt (Some a) s))))
     = heap (state_of (renderDecisionDetail rt (Some a) s))"
proof -
  let ?s1 = "state_of (renderDecisionDetail rt (Some a) s)"
  have h1: "heap ?s1 = (heap s)[a := (heap s ! a)\<lparr>signals := map_option sort_signals (signals (heap s ! a))\<rparr>]"
    by (simp add: heap_renderDecisionDetail)
  have sp: "sort_signals = (\<lambda>sigs. filter (\<lambda>x. \<not> is_wait x) sigs @ filter is_wait sigs)"
    by (rule ext) (rule sort_signals_partition)
  have idem: "map_option sort_signals (map_option sort_signals v) = map_option sort_signals v" for v
    by (cases v) (simp_all add: sort_signals_idem)
  have h2: "heap (state_of (renderDecisionDetail rt (Some a) ?s1)) = heap ?s1"
  proof (cases "a < length (heap s)")
    case True
    then show ?thesis
      by (simp add: heap_renderDecisionDetail idem)
  next
    case False
    then have "length (heap s) \<le> a" by simp
    then show ?thesis by (simp add: heap_renderDecisionDetail list_update_beyond)
  qed
  have cd: "currentDecisions ?s1 = currentDecisions s"
    using keeps_renderDecisionDetail [of "[]" s rt "Some a"] by (simp add: keeps_selection_def)
  show ?thesis using h1 h2 cd by (simp add: sp)
qed

subsection \<open>Loading the decisions\<close>

text \<open>
  C5. Whatever the decisions response holds, the list \<^verbatim>\<open>loadAIDecisions\<close> retains from it
  has no decision whose \<^verbatim>\<open>symbols_count\<close> is \<open>0\<close> (each retained count is positive), and
  the decisions retained are, signals apart, the decisions of the response that are not
  empty rounds, in the order of the response.
\<close>

theorem loadAIDecisions_drops_empty_rounds:
  fixes rt t status response s
  defines "s' \<equiv> loadAIDecisions rt (Some (t, Response status (Some response))) s"
  shows "list_all (\<lambda>a. symbols_count (heap s' ! a) \<noteq> Some 0 \<and> num_or (symbols_count (heap s' ! a)) 0 > 0)
           (currentDecisions s')
         \<and> map (\<lambda>a. without_signals (heap s' ! a)) (currentDecisions s') =
             map without_signals
               (filter (\<lambda>d. num_or (symbols_count d) 0 > 0)
                  (case decisions response of None \<Rightarrow> [] | Some ds \<Rightarrow> ds))"
proof -
  let ?ds = "case decisions response of None \<Rightarrow> [] | Some xs \<Rightarrow> xs"
  let ?s0 = "loadAIDecisions_fetch rt s"
  let ?h = "heap s @ ?ds"
  let ?addrs = "[length (heap s) ..< length (heap s) + length ?ds]"
  have h0: "heap ?s0 = heap s" by (simp add: loadAIDecisions_fetch_def Let_def)
  have s': "s' = (case decisions_loaded rt response ?s0 of Done s1 \<Rightarrow> s1
                  | Thrown err s1 \<Rightarrow> log_error ''loadAIDecisions error:'' err s1)"
    by (simp add: s'_def loadAIDecisions_def loadAIDecisions_settled_def)
  have cd: "currentDecisions s' = currentDecisions (state_of (decisions_loaded rt response ?s0))"
    and hp: "heap s' = heap (state_of (decisions_loaded rt response ?s0))"
    unfolding s' by (cases "decisions_loaded rt response ?s0"; simp add: log_error_def)+
  have kept: "currentDecisions s' = filter (\<lambda>a. has_symbols (?h ! a)) ?addrs"
    unfolding cd using frame_decisions_loaded(1) [of rt response ?s0] by (simp add: h0)
  have same: "map without_signals (heap s') = map without_signals ?h"
    unfolding hp using frame_decisions_loaded(2) [of rt response ?s0] by (simp add: h0)
  have at: "without_signals (heap s' ! a) = without_signals (?h ! a)" if "a \<in> set ?addrs" for a
    using same_without_signals [OF same] that by simp
  have kept_at: "has_symbols (heap s' ! a)" if "a \<in> set (currentDecisions s')" for a
  proof -
    from that have "a \<in> set ?addrs" and "has_symbols (?h ! a)" unfolding kept by simp_all
    then show ?thesis using at [of a] has_symbols_without_signals by metis
  qed
  have part1: "list_all (\<lambda>a. symbols_count (heap s' ! a) \<noteq> Some 0 \<and> num_or (symbols_count (heap s' ! a)) 0 > 0)
           (currentDecisions s')"
    unfolding list_all_iff using kept_at has_symbols_nonzero by (auto simp: has_symbols_def)
  have "map (\<lambda>a. without_signals (heap s' ! a)) (currentDecisions s')
          = map (\<lambda>a. without_signals (?h ! a)) (currentDecisions s')"
    by (rule map_cong) (auto simp: kept at)
  also have "\<dots> = map without_signals (map ((!) ?h) (filter (\<lambda>a. has_symbols (?h ! a)) ?addrs))"
    by (simp add: kept)
  also have "map ((!) ?h) (filter (\<lambda>a. has_symbols (?h ! a)) ?addrs) = filter has_symbols (map ((!) ?h) ?addrs)"
    by (simp add: filter_map comp_def)
  also have "map ((!) ?h) ?addrs = ?ds" by (rule nth_new_objects)
  finally have part2: "map (\<lambda>a. without_signals (heap s' ! a)) (currentDecisions s') =
             map without_signals (filter (\<lambda>d. num_or (symbols_count d) 0 > 0) ?ds)"
    by (simp add: has_symbols_def [abs_def])
  from part1 part2 show ?thesis by simp
qed

theorem loadAIDecisions_drops_empty_rounds_witness:
  "currentDecisions example_loaded = [0, 1]
   \<and> map (\<lambda>a. round_no (heap example_loaded ! a)) (currentDecisions example_loaded) = [1, 2]
   \<and> list_all (\<lambda>a. symbols_count (heap example_loaded ! a) \<noteq> Some 0
                    \<and> num_or (symbols_count (heap example_loaded ! a)) 0 > 0)
        (currentDecisions example_loaded)"
  using loadAIDecisions_drops_empty_rounds
          [of example_runtime 0 200 example_response "initial_state example_page"]
  by (simp add: example_loaded_decisions example_loaded_objects example_decision_def
      flip: example_loaded_def)

subsection \<open>The selection\<close>

text \<open>
  The example page has loaded its decisions and the second one has been clicked. The
  decisions are loaded again and the response holds an empty round only: the load
  completes with no decision and the index still \<open>1\<close>. The claim C6 as it is written,
  that every completion of \<^verbatim>\<open>loadAIDecisions\<close> resets the index to \<open>0\<close>, fails.
\<close>

theorem reload_without_decisions_keeps_index:
  "selectedDecisionIndex (state_of (selectDecision example_runtime 1 example_loaded)) = 1
   \<and> currentDecisions
       (loadAIDecisions example_runtime (Some (1, Response 200 (Some empty_response)))
          (state_of (selectDecision example_runtime 1 example_loaded))) = []
   \<and> selectedDecisionIndex
       (loadAIDecisions example_runtime (Some (1, Response 200 (Some empty_response)))
          (state_of (selectDecision example_runtime 1 example_loaded))) = 1"
proof -
  let ?s1 = "state_of (selectDecision example_runtime 1 example_loaded)"
  let ?s2 = "loadAIDecisions_fetch example_runtime ?s1"
  let ?s3 = "loadAIDecisions_settled example_runtime (Fulfilled empty_response) ?s2"
  have s3: "loadAIDecisions example_runtime (Some (1, Response 200 (Some empty_response))) ?s1 = ?s3"
    by (simp add: loadAIDecisions_def)
  have i1: "selectedDecisionIndex ?s1 = 1" by (simp add: frame_selectDecision)
  then have i2: "selectedDecisionIndex ?s2 = 1" by (simp add: loadAIDecisions_fetch_def Let_def)
  have els: "elements ?s2 ''ai-summary'' \<noteq> None" "elements ?s2 ''decision-list'' \<noteq> None"
    using example_loaded_decisions
    by (simp_all add: loadAIDecisions_fetch_def Let_def frame_selectDecision)
  have "currentDecisions (state_of (decisions_loaded example_runtime empty_response ?s2)) = []"
    unfolding frame_decisions_loaded(1)
    by (simp add: empty_response_def example_decision_def has_symbols_def num_or_def filter_empty_conv
        nth_append)
  then have none: "currentDecisions ?s3 = []"
    by (cases "decisions_loaded example_runtime empty_response ?s2")
       (simp_all add: loadAIDecisions_settled_def log_error_def)
  with selected_loadAIDecisions_settled [OF els, of example_runtime empty_response] i2
  have "selectedDecisionIndex ?s3 = 1" by simp
  with i1 none show ?thesis unfolding s3 by simp
qed

lemma reachable_invariant:
  assumes "reachable rt doc s"
    and "doc ''ai-summary'' \<noteq> None" and "doc ''decision-list'' \<noteq> None"
  shows "elements s ''ai-summary'' \<noteq> None \<and> elements s ''decision-list'' \<noteq> None
         \<and> (currentDecisions s \<noteq> [] \<longrightarrow> selection_valid s)"
  using assms
proof (induction rule: reachable.induct)
  case start
  then show ?case by (simp add: initial_state_def)
next
  case (dashboard s)
  then show ?case by (simp add: loadDashboard_fetch_def selection_valid_def)
next
  case (dashboard_answer s p4)
  with keeps_loadDashboard_settled [of "''ai-summary''" s rt p4]
    keeps_loadDashboard_settled [of "''decision-list''" s rt p4]
  show ?case by (simp add: keeps_selection_def selection_valid_def)
next
  case (trades s n)
  then show ?case by (simp add: loadTradesPage_fetch_def selection_valid_def)
next
  case (trades_answer s pt)
  with keeps_loadTradesPage_settled [of "''ai-summary''" s rt pt]
    keeps_loadTradesPage_settled [of "''decision-list''" s rt pt]
  show ?case by (simp add: keeps_selection_def selection_valid_def)
next
  case (load s)
  then show ?case by (simp add: loadAIDecisions_fetch_def Let_def selection_valid_def)
next
  case (answer s p)
  then have inv: "elements s ''ai-summary'' \<noteq> None" "elements s ''decision-list'' \<noteq> None"
    "currentDecisions s \<noteq> [] \<longrightarrow> selection_valid s" by simp_all
  have els: "elements (loadAIDecisions_settled rt p s) ''ai-summary'' \<noteq> None"
    "elements (loadAIDecisions_settled rt p s) ''decision-list'' \<noteq> None"
    using inv(1,2) by (simp_all add: elements_loadAIDecisions_settled)
  have "currentDecisions (loadAIDecisions_settled rt p s) \<noteq> []
        \<longrightarrow> selection_valid (loadAIDecisions_settled rt p s)"
  proof (cases p)
    case Pending
    with inv(3) show ?thesis by (simp add: loadAIDecisions_settled_def)
  next
    case (Rejected t err)
    with inv(3) show ?thesis
      by (simp add: loadAIDecisions_settled_def log_error_def selection_valid_def)
  next
    case (Fulfilled response)
    show ?thesis
      unfolding Fulfilled selection_valid_def
      using selected_loadAIDecisions_settled [OF inv(1,2), of rt response]
      by auto
  qed
  with els show ?case by simp
next
  case (click s i)
  then show ?case by (simp add: frame_selectDecision selection_valid_def)
qed

text \<open>
  C6, as amended. On a page that has the summary and the list element: a completion of
  \<^verbatim>\<open>loadAIDecisions\<close> that retains a decision sets the selection index to \<open>0\<close>, and one
  that retains none leaves the index as it was; and in every state the page reaches, by
  the three loads, their answers and clicks on the listed decisions, once the decision
  log is not empty the index is a position of the loaded list.
\<close>

theorem selection_valid_when_loaded:
  assumes "reachable rt doc s"
    and "doc ''ai-summary'' \<noteq> None" and "doc ''decision-list'' \<noteq> None"
  shows "(currentDecisions s \<noteq> [] \<longrightarrow> selection_valid s)
         \<and> selectedDecisionIndex (loadAIDecisions_settled rt (Fulfilled response) s) =
             (if currentDecisions (loadAIDecisions_settled rt (Fulfilled response) s) = []
              then selectedDecisionIndex s else 0)"
  using reachable_invariant [OF assms] selected_loadAIDecisions_settled [of s rt response]
  by simp

theorem selection_valid_when_loaded_witness:
  "reachable example_runtime example_page example_loaded
   \<and> example_page ''ai-summary'' \<noteq> None \<and> example_page ''decision-list'' \<noteq> None
   \<and> currentDecisions example_loaded \<noteq> [] \<and> selection_valid example_loaded
   \<and> currentDecisions (loadAIDecisions_settled example_runtime (Fulfilled example_response) example_loaded)
       \<noteq> []
   \<and> selectedDecisionIndex
       (loadAIDecisions_settled example_runtime (Fulfilled example_response) example_loaded) = 0"
proof -
  have page: "example_page ''ai-summary'' \<noteq> None" "example_page ''decision-list'' \<noteq> None"
    by (simp_all add: example_page_def)
  have again: "currentDecisions
      (loadAIDecisions_settled example_runtime (Fulfilled example_response) example_loaded) = [3, 4]"
    using frame_decisions_loaded(1) [of example_runtime example_response example_loaded]
    by (cases "decisions_loaded example_runtime example_response example_loaded")
       (simp_all add: loadAIDecisions_settled_def log_error_def example_loaded_objects
          example_response_def example_decision_def has_symbols_def num_or_def upt_rec nth_append)
  from selection_valid_when_loaded [OF reachable_example_loaded page, of example_response]
  show ?thesis
    using reachable_example_loaded page again by (simp add: example_loaded_decisions)
qed

lemma decision_items_no_active:
  "selected < int k \<or> int (k + length as) \<le> selected \<Longrightarrow>
   decision_items rt h selected k as =
     concat (map (\<lambda>(j, a). decision_item rt (h ! a) j False) (enumerate k as))"
proof (induction as arbitrary: k)
  case Nil
  show ?case by simp
next
  case (Cons a as)
  from Cons.prems have "int k \<noteq> selected" by auto
  moreover from Cons.prems have "selected < int (Suc k) \<or> int (Suc k + length as) \<le> selected"
    by auto
  ultimately show ?case using Cons.IH [of "Suc k"] by simp
qed

text \<open>
  C10. On a page that has the list and the detail element, \<^verbatim>\<open>selectDecision(i)\<close> with
  \<open>i\<close> outside the loaded list does not throw: it completes, with \<open>i\<close> stored as the
  selected index, the list rendered again with no item active (or its message, when no
  decision is loaded), and the placeholder message in the detail pane. Nothing else of
  the state changes.
\<close>

theorem selectDecision_out_of_range:
  assumes "i < 0 \<or> int (length (currentDecisions s)) \<le> i"
    and "elements s ''decision-list'' \<noteq> None"
    and "elements s ''decision-detail'' \<noteq> None"
  shows \<open>selectDecision rt i s =
     Done (s\<lparr>selectedDecisionIndex := i,
             elements :=
               written ''decision-detail''
                 (InnerHTML (''<div style="color:#666;text-align:center;padding:40px;">''
                             @ zh_select_left @ ''</div>''))
                 (written ''decision-list''
                    (InnerHTML
                       (if currentDecisions s = [] then
                          ''<div style="padding:40px;color:#666;text-align:center;">''
                          @ zh_no_decisions @ ''</div>''
                        else concat (map (\<lambda>(j, a). decision_item rt (heap s ! a) j False)
                                       (enumerate 0 (currentDecisions s)))))
                    (elements s))\<rparr>)\<close>
proof -
  from assms(2,3) obtain list_el detail_el where
    els: "elements s ''decision-list'' = Some list_el" "elements s ''decision-detail'' = Some detail_el"
    by auto
  let ?s0 = "s\<lparr>selectedDecisionIndex := i\<rparr>"
  let ?listing =
    "if currentDecisions s = [] then
       ''<div style=\"padding:40px;color:#666;text-align:center;\">'' @ zh_no_decisions @ ''</div>''
     else concat (map (\<lambda>(j, a). decision_item rt (heap s ! a) j False)
                    (enumerate 0 (currentDecisions s)))"
  let ?s1 = "?s0\<lparr>elements := (elements s)(''decision-list'' \<mapsto> list_el\<lparr>inner := InnerHTML ?listing\<rparr>)\<rparr>"
  from assms(1) have items:
    "decision_items rt (heap s) i 0 (currentDecisions s) =
       concat (map (\<lambda>(j, a). decision_item rt (heap s ! a) j False) (enumerate 0 (currentDecisions s)))"
    by (intro decision_items_no_active) simp
  have list: "renderDecisionList rt ?s0 = Done ?s1"
    using els(1) items by (simp add: renderDecisionList_def set_innerHTML_Some)
  from assms(1) have missing: "array_get (currentDecisions ?s1) i = None"
    by (auto simp: array_get_def)
  have "elements ?s1 ''decision-detail'' = Some detail_el"
    using els(2) by simp
  then have detail: "renderDecisionDetail rt None ?s1 =
      Done (?s1\<lparr>elements := (elements ?s1)(''decision-detail'' \<mapsto> detail_el\<lparr>inner := InnerHTML
          (''<div style=\"color:#666;text-align:center;padding:40px;\">'' @ zh_select_left @ ''</div>'')\<rparr>)\<rparr>)"
    by (simp only: renderDecisionDetail_def option.case set_innerHTML_Some)
  show ?thesis
    unfolding selectDecision_def list and_then.simps missing detail
    using els by (simp add: written_def)
qed

theorem selectDecision_out_of_range_witness:
  \<open>int (length (currentDecisions example_loaded)) \<le> 5
   \<and> elements example_loaded ''decision-list'' \<noteq> None
   \<and> elements example_loaded ''decision-detail'' \<noteq> None
   \<and> selectedDecisionIndex (state_of (selectDecision example_runtime 5 example_loaded)) = 5
   \<and> innerHTML_of (state_of (selectDecision example_runtime 5 example_loaded)) ''decision-detail''
       = ''<div style="color:#666;text-align:center;padding:40px;">'' @ zh_select_left @ ''</div>''
   \<and> innerHTML_of (state_of (selectDecision example_runtime 5 example_loaded)) ''decision-list''
       = decision_item example_runtime (heap example_loaded ! 0) 0 False
         @ decision_item example_runtime (heap example_loaded ! 1) 1 False\<close>
  using selectDecision_out_of_range [of 5 example_loaded example_runtime] example_loaded_decisions
  by (auto simp: innerHTML_of_def written_def enumerate_eq_zip upt_rec)
section \<open>The dashboard and the trades\<close>



















text \<open>
  C7 fails for the trades: the chain of \<^verbatim>\<open>loadTradesPage\<close> ends without a \<^verbatim>\<open>catch\<close>. When
  the request for page 2 fails, nothing is logged, the rejection reaches the top level
  unhandled, and \<^verbatim>\<open>currentTradesPage\<close> is already 2.
\<close>

theorem loadTradesPage_failure_unhandled:
  "console (loadTradesPage example_runtime 2 (Some (0, NetworkFailure)) (initial_state example_page)) = []
   \<and> unhandled_rejections
       (loadTradesPage example_runtime 2 (Some (0, NetworkFailure)) (initial_state example_page))
     = [TypeError ''Failed to fetch'']
   \<and> currentTradesPage
       (loadTradesPage example_runtime 2 (Some (0, NetworkFailure)) (initial_state example_page)) = 2
   \<and> currentTradesPage (initial_state example_page) = 1"
  by (simp add: loadTradesPage_def loadTradesPage_fetch_def loadTradesPage_settled_def
      initial_state_def)

text \<open>
  C8. \<^verbatim>\<open>loadTradesPage\<close> with a page below 1 does nothing: whatever the network would
  answer, the state after the call is the state before it, with no request sent, nothing
  logged or thrown, and \<^verbatim>\<open>currentTradesPage\<close> as it was.
\<close>

theorem loadTradesPage_below_one:
  "p < 1 \<Longrightarrow> loadTradesPage rt p answer s = s"
  by (simp add: loadTradesPage_def)

theorem loadTradesPage_below_one_witness:
  "(0 :: number) < 1
   \<and> loadTradesPage example_runtime 0 (Some (0, NetworkFailure)) example_loaded = example_loaded
   \<and> (- 1 :: number) < 1
   \<and> loadTradesPage example_runtime (- 1) None example_loaded = example_loaded
   \<and> fetched (loadTradesPage example_runtime (- 1) None example_loaded) = fetched example_loaded
   \<and> currentTradesPage (loadTradesPage example_runtime 0 None (initial_state example_page)) = 1"
  using loadTradesPage_below_one [of 0 example_runtime "Some (0, NetworkFailure)" example_loaded]
    loadTradesPage_below_one [of "- 1" example_runtime None example_loaded]
    loadTradesPage_below_one [of 0 example_runtime None "initial_state example_page"]
  by (simp add: initial_state_def)

lemma series_loop_arrays:
  "series_loop rt initial points arrays =
     \<lparr>xData = xData arrays
              @ map (\<lambda>item. toLocaleString rt (case item of Tuple t e \<Rightarrow> t | Object t e \<Rightarrow> t)) points,
      yData = yData arrays @ map (\<lambda>item. case item of Tuple t e \<Rightarrow> e | Object t e \<Rightarrow> e) points,
      baseLine = baseLine arrays @ replicate (length points) initial\<rparr>"
proof (induction points arbitrary: arrays)
  case Nil
  show ?case by simp
next
  case (Cons item rest)
  show ?case by (simp add: Cons.IH Let_def replicate_append_same)
qed

text \<open>
  C9. For a profit curve with at least one point, on a page that has the chart and the
  legend element, \<^verbatim>\<open>renderProfitChart\<close> completes and hands the chart three arrays, the
  labels, the equity and the baseline, each as long as the list of points, and every
  element of the baseline is the curve's \<^verbatim>\<open>initial_equity\<close> (\<open>0\<close> when the curve has none).
\<close>

theorem renderProfitChart_arrays:
  assumes "data profit = Some points" and "points \<noteq> []"
    and "elements s ''profit_chart'' \<noteq> None"
    and "elements s ''chart-legend'' \<noteq> None"
  shows "\<exists>s' arrays.
           renderProfitChart rt profit s = Done s' \<and> chart_option s' = Some arrays
           \<and> length (xData arrays) = length points
           \<and> length (yData arrays) = length points
           \<and> length (baseLine arrays) = length points
           \<and> baseLine arrays =
               replicate (length points) (case initial_equity profit of None \<Rightarrow> 0 | Some v \<Rightarrow> v)"
proof -
  have initial: "num_or (initial_equity profit) 0 = (case initial_equity profit of None \<Rightarrow> 0 | Some v \<Rightarrow> v)"
    by (simp add: num_or_def split: option.split)
  from assms(3,4) obtain chart_el legend_el where
    "elements s ''profit_chart'' = Some chart_el" "elements s ''chart-legend'' = Some legend_el"
    by auto
  with assms(1,2) show ?thesis
    by (simp add: renderProfitChart_def Let_def set_innerHTML_Some series_loop_arrays initial)
qed

theorem renderProfitChart_arrays_witness:
  "data example_curve = Some [Tuple 1 5000, Object 2 5100]
   \<and> [Tuple 1 5000, Object 2 5100] \<noteq> []
   \<and> elements (initial_state example_page) ''profit_chart'' \<noteq> None
   \<and> elements (initial_state example_page) ''chart-legend'' \<noteq> None
   \<and> (\<exists>s' arrays.
         renderProfitChart example_runtime example_curve (initial_state example_page) = Done s'
         \<and> chart_option s' = Some arrays
         \<and> length (xData arrays) = 2 \<and> length (yData arrays) = 2 \<and> length (baseLine arrays) = 2
         \<and> baseLine arrays = [5000, 5000])"
  using renderProfitChart_arrays
          [of example_curve "[Tuple 1 5000, Object 2 5100]" "initial_state example_page" example_runtime]
  by (simp add: example_curve_def initial_state_def example_page_def numeral_2_eq_2)

section \<open>Escaping\<close>

text \<open>
  C3 fails for the invalidation conditions. A round whose one signal carries markup in its
  reason and in an invalidation condition is loaded on the example page: the detail pane
  holds the markup the render builds from it, and in what the signal adds to it the
  reason went through \<^verbatim>\<open>escapeHtml\<close> and the invalidation condition did not.
\<close>

theorem invalidations_inserted_unescaped:
  \<open>innerHTML_of hostile_loaded ''decision-detail''
     = decision_detail_html example_runtime (example_decision 1 1 [hostile_signal]) [hostile_signal]
   \<and> reason_block example_runtime hostile_signal
     = ''<div style="margin-bottom:12px;padding:10px;background:#0a0c10;border-radius:4px;">''
       @ ''<div style="margin-bottom:6px;"><b style="color:#5ab2ff;">BTCUSDT</b> ''
       @ ''<span class="badge wait" style="margin-left:8px;">wait</span></div>''
       @ ''<div style="color:#aaa;font-size:12px;line-height:1.6;margin-bottom:6px;"><b>''
       @ zh_quant @ ''</b> &lt;i&gt;x&lt;/i&gt;</div>''
       @ ''<div style="margin-top:6px;color:#ff5252;font-size:11px;">''
       @ zh_invalidation @ ''<script>alert(1)</script></div></div>''\<close>
proof -
  have "sort_signals [hostile_signal] = [hostile_signal]"
    by (simp add: sort_signals_partition is_wait_def hostile_signal_def example_signal_def)
  then have "innerHTML_of hostile_loaded ''decision-detail''
     = decision_detail_html example_runtime (example_decision 1 1 [hostile_signal]) [hostile_signal]"
    by (simp add: innerHTML_of_def hostile_loaded_def example_decision_def example_page_def
        initial_state_def flow_defs upt_rec)
  moreover have \<open>reason_block example_runtime hostile_signal
     = ''<div style="margin-bottom:12px;padding:10px;background:#0a0c10;border-radius:4px;">''
       @ ''<div style="margin-bottom:6px;"><b style="color:#5ab2ff;">BTCUSDT</b> ''
       @ ''<span class="badge wait" style="margin-left:8px;">wait</span></div>''
       @ ''<div style="color:#aaa;font-size:12px;line-height:1.6;margin-bottom:6px;"><b>''
       @ zh_quant @ ''</b> &lt;i&gt;x&lt;/i&gt;</div>''
       @ ''<div style="margin-top:6px;color:#ff5252;font-size:11px;">''
       @ zh_invalidation @ ''<script>alert(1)</script></div></div>''\<close>
    by (simp add: reason_block_def hostile_signal_def example_signal_def escapeHtml_def
        replace_all_def str_or_def truthy_str_def example_runtime_def)
  ultimately show ?thesis by simp
qed

end
